theory Spec2Isabelle
  imports Complex_Main
begin

section \<open>Spy Cat Agency backend: data model\<close>

text \<open>
  The three SQLAlchemy tables of \<^verbatim>\<open>backend/main.py\<close> (\<^verbatim>\<open>SpyCatDB\<close>, \<^verbatim>\<open>MissionDB\<close>,
  \<^verbatim>\<open>TargetDB\<close>) are records, one per row. The columns keep their names behind a
  one-letter prefix for the table, since the same column name occurs in several tables.
  A nullable integer column is an \<open>int option\<close>. The \<^verbatim>\<open>Float\<close> salary is a \<open>real\<close>:
  the handlers only store it and compare it with zero.
\<close>

record SpyCatDB =
  c_id :: int
  c_name :: string
  c_years_of_experience :: int
  c_breed :: string
  c_salary :: real
  c_mission_id :: "int option"

record MissionDB =
  m_id :: int
  m_is_completed :: bool
  m_cat_id :: "int option"

record TargetDB =
  t_id :: int
  t_name :: string
  t_country :: string
  t_notes :: string
  t_is_completed :: bool
  t_mission_id :: "int option"

text \<open>The request bodies (the pydantic models).\<close>

record SpyCatCreate =
  cc_name :: string
  cc_years_of_experience :: int
  cc_breed :: string
  cc_salary :: real

record TargetCreate =
  tc_name :: string
  tc_country :: string

record MissionCreate =
  mc_cat_id :: "int option"
  mc_targets :: "TargetCreate list"

record TargetUpdate =
  u_notes :: "string option"
  u_is_completed :: "bool option"

text \<open>
  Everything a handler can end with instead of its answer. \<open>HTTPException\<close> carries
  the status code and the detail, as in the source; it is the only error the handlers
  raise themselves. \<open>RequestValidationError\<close> is what the framework answers when a
  pydantic constraint (\<^verbatim>\<open>conint(ge=0)\<close>, \<^verbatim>\<open>confloat(gt=0)\<close>) rejects a body.
  \<open>Uncaught\<close> is any other exception, under the name of its class: the source has no
  \<^verbatim>\<open>try\<close>, so whatever the database, \<^verbatim>\<open>requests\<close> or a Python operation raises leaves
  the handler as it is.
\<close>

datatype error =
    is_HTTPException: HTTPException int string
  | RequestValidationError
  | Uncaught string

abbreviation TypeError :: error where
  "TypeError \<equiv> Uncaught ''TypeError''"

abbreviation KeyError :: error where
  "KeyError \<equiv> Uncaught ''KeyError''"

abbreviation AttributeError :: error where
  "AttributeError \<equiv> Uncaught ''AttributeError''"

section \<open>The database and the session\<close>

text \<open>
  A table is the list of its rows in insertion order. The database allocates the
  primary key of a new row: one more than the largest key in the table, and 1 in an
  empty table.
\<close>

record store =
  spy_cats :: "SpyCatDB list"
  missions :: "MissionDB list"
  targets :: "TargetDB list"

definition empty_store :: store where
  "empty_store = \<lparr>spy_cats = [], missions = [], targets = []\<rparr>"

definition next_id :: "int list \<Rightarrow> int" where
  "next_id ids = foldr max ids 0 + 1"

text \<open>
  The database is outside the program, and a commit can fail there: it raises when a
  row holds a string the database cannot encode (a lone surrogate in a name or in the
  notes), when the file is locked, when the disk is full. What the database answers to
  each commit is therefore an argument of the model: \<open>Commits\<close>, or \<open>Raises\<close> with the
  name of the exception.
\<close>

datatype commit_outcome = Commits | Raises string

text \<open>
  A session (\<^verbatim>\<open>db: Session = Depends(get_db)\<close>) holds the rows as the handler sees
  them, with its uncommitted changes (\<open>pending\<close>), beside what the database file holds
  (\<open>persisted\<close>). \<open>history\<close> lists every state the session has committed, oldest
  first: these are the persisted states another reader of the database can observe
  while the handler runs. \<open>database\<close> is what the database will answer to the first,
  second, ... commit of the session (counted from 0).

  \<^verbatim>\<open>db.commit()\<close> writes the pending rows through when the database accepts them.
  When it does not, the transaction is rolled back, the database keeps what it held, and
  the exception leaves the handler.
\<close>

record Session =
  persisted :: store
  pending :: store
  history :: "store list"
  database :: "nat \<Rightarrow> commit_outcome"

definition SessionLocal :: "(nat \<Rightarrow> commit_outcome) \<Rightarrow> store \<Rightarrow> Session" where
  "SessionLocal answers st = \<lparr>persisted = st, pending = st, history = [], database = answers\<rparr>"

definition db_commit :: "Session \<Rightarrow> (error + unit) \<times> Session" where
  "db_commit db =
     (case database db (length (history db)) of
        Commits \<Rightarrow> (Inr (), db\<lparr>persisted := pending db, history := history db @ [pending db]\<rparr>)
      | Raises e \<Rightarrow> (Inl (Uncaught e), db\<lparr>pending := persisted db\<rparr>))"

text \<open>
  \<^verbatim>\<open>get_db\<close> opens a session for one request and closes it afterwards; closing drops
  whatever was not committed. \<open>get_db\<close> runs a handler on a store, against a database
  that answers the commits as given, and returns the handler's answer with the store
  the database holds afterwards.
\<close>

definition get_db ::
  "(nat \<Rightarrow> commit_outcome) \<Rightarrow> (Session \<Rightarrow> 'a \<times> Session) \<Rightarrow> store \<Rightarrow> 'a \<times> store" where
  "get_db answers handler st =
     (case handler (SessionLocal answers st) of (r, db) \<Rightarrow> (r, persisted db))"

text \<open>A database that accepts every commit.\<close>

definition accepting :: "nat \<Rightarrow> commit_outcome" where
  "accepting n = Commits"

text \<open>\<^verbatim>\<open>db.query(T).filter(T.id == k).first()\<close>\<close>

definition query_cat :: "int \<Rightarrow> Session \<Rightarrow> SpyCatDB option" where
  "query_cat cat_id db = find (\<lambda>c. c_id c = cat_id) (spy_cats (pending db))"

definition query_target :: "int \<Rightarrow> Session \<Rightarrow> TargetDB option" where
  "query_target target_id db = find (\<lambda>t. t_id t = target_id) (targets (pending db))"

text \<open>
  The two relationships: \<^verbatim>\<open>target.mission\<close> is the mission row whose id is the target's
  \<^verbatim>\<open>mission_id\<close> (\<^verbatim>\<open>None\<close> when there is none), and \<^verbatim>\<open>mission.targets\<close> are the target
  rows whose \<^verbatim>\<open>mission_id\<close> is the mission's id.
\<close>

definition target_mission :: "TargetDB \<Rightarrow> store \<Rightarrow> MissionDB option" where
  "target_mission t st =
     (case t_mission_id t of
        None \<Rightarrow> None
      | Some mid \<Rightarrow> find (\<lambda>m. m_id m = mid) (missions st))"

definition mission_targets :: "int \<Rightarrow> store \<Rightarrow> TargetDB list" where
  "mission_targets mid st = filter (\<lambda>t. t_mission_id t = Some mid) (targets st)"

text \<open>\<^verbatim>\<open>db.add(row)\<close>: the row joins its table under the next primary key.\<close>

definition add_cat :: "SpyCatCreate \<Rightarrow> Session \<Rightarrow> SpyCatDB \<times> Session" where
  "add_cat cat db =
     (let st = pending db;
          row = \<lparr>c_id = next_id (map c_id (spy_cats st)), c_name = cc_name cat,
                 c_years_of_experience = cc_years_of_experience cat,
                 c_breed = cc_breed cat, c_salary = cc_salary cat, c_mission_id = None\<rparr>
      in (row, db\<lparr>pending := st\<lparr>spy_cats := spy_cats st @ [row]\<rparr>\<rparr>))"

definition add_mission :: "bool \<Rightarrow> int option \<Rightarrow> Session \<Rightarrow> MissionDB \<times> Session" where
  "add_mission is_completed cat_id db =
     (let st = pending db;
          row = \<lparr>m_id = next_id (map m_id (missions st)), m_is_completed = is_completed,
                 m_cat_id = cat_id\<rparr>
      in (row, db\<lparr>pending := st\<lparr>missions := missions st @ [row]\<rparr>\<rparr>))"

text \<open>
  \<^verbatim>\<open>TargetDB(**target.dict(), mission_id=...)\<close>: \<^verbatim>\<open>notes\<close> and \<^verbatim>\<open>is_completed\<close> take
  their column defaults.
\<close>

definition add_target :: "TargetCreate \<Rightarrow> int \<Rightarrow> Session \<Rightarrow> Session" where
  "add_target target mission_id db =
     (let st = pending db;
          row = \<lparr>t_id = next_id (map t_id (targets st)), t_name = tc_name target,
                 t_country = tc_country target, t_notes = '''', t_is_completed = False,
                 t_mission_id = Some mission_id\<rparr>
      in db\<lparr>pending := st\<lparr>targets := targets st @ [row]\<rparr>\<rparr>)"

text \<open>Assignments to a column of a loaded row, and \<^verbatim>\<open>db.delete(row)\<close>.\<close>

definition set_cat_salary :: "int \<Rightarrow> real \<Rightarrow> Session \<Rightarrow> Session" where
  "set_cat_salary cat_id salary db =
     db\<lparr>pending := (pending db)\<lparr>spy_cats :=
       map (\<lambda>c. if c_id c = cat_id then c\<lparr>c_salary := salary\<rparr> else c) (spy_cats (pending db))\<rparr>\<rparr>"

definition delete_cat_row :: "int \<Rightarrow> Session \<Rightarrow> Session" where
  "delete_cat_row cat_id db =
     db\<lparr>pending := (pending db)\<lparr>spy_cats :=
       filter (\<lambda>c. c_id c \<noteq> cat_id) (spy_cats (pending db))\<rparr>\<rparr>"

definition set_target_notes :: "int \<Rightarrow> string \<Rightarrow> Session \<Rightarrow> Session" where
  "set_target_notes target_id notes db =
     db\<lparr>pending := (pending db)\<lparr>targets :=
       map (\<lambda>t. if t_id t = target_id then t\<lparr>t_notes := notes\<rparr> else t) (targets (pending db))\<rparr>\<rparr>"

definition set_target_is_completed :: "int \<Rightarrow> bool \<Rightarrow> Session \<Rightarrow> Session" where
  "set_target_is_completed target_id b db =
     db\<lparr>pending := (pending db)\<lparr>targets :=
       map (\<lambda>t. if t_id t = target_id then t\<lparr>t_is_completed := b\<rparr> else t) (targets (pending db))\<rparr>\<rparr>"

definition set_mission_is_completed :: "int \<Rightarrow> bool \<Rightarrow> Session \<Rightarrow> Session" where
  "set_mission_is_completed mission_id b db =
     db\<lparr>pending := (pending db)\<lparr>missions :=
       map (\<lambda>m. if m_id m = mission_id then m\<lparr>m_is_completed := b\<rparr> else m) (missions (pending db))\<rparr>\<rparr>"

section \<open>Breed validation\<close>

text \<open>
  The breed catalogue is outside the program, so the answer of
  \<^verbatim>\<open>requests.get("https://api.thecatapi.com/v1/breeds")\<close> is an argument of the model:
  \<^verbatim>\<open>requests.get\<close> raises (\<open>RequestFailed\<close>, with the name of the exception: a
  connection error, a timeout, an invalid redirect, ...), or \<^verbatim>\<open>response.json()\<close> raises
  (\<open>NotJSON\<close>, with the name of the exception: a decoding error, a recursion error on a
  deeply nested body, ...), or a JSON value is decoded. \<open>JNumber\<close> stands for any JSON
  number: the code treats them all alike. \<open>JObject\<close> lists the members of an object as
  the text has them, repeated names included.
\<close>

datatype json =
    JNull
  | JBool bool
  | JNumber int
  | JString string
  | JArray "json list"
  | JObject "(string \<times> json) list"

datatype breeds_response = RequestFailed string | NotJSON string | Body json

text \<open>
  Python decodes a JSON object to a \<^verbatim>\<open>dict\<close>: of the members with one name the last
  one gives the value, and the names keep the order of their first occurrence.
\<close>

definition dict_get :: "(string \<times> json) list \<Rightarrow> string \<Rightarrow> json option" where
  "dict_get kvs k = map_of (rev kvs) k"

definition dict_keys :: "(string \<times> json) list \<Rightarrow> string list" where
  "dict_keys kvs = rev (remdups (rev (map fst kvs)))"

text \<open>\<^verbatim>\<open>str.lower()\<close>, on ASCII letters.\<close>

definition lower_char :: "char \<Rightarrow> char" where
  "lower_char c =
     (let n = (of_char c :: nat) in if 65 \<le> n \<and> n \<le> 90 then char_of (n + 32) else c)"

definition lower :: "string \<Rightarrow> string" where
  "lower s = map lower_char s"

fun join :: "string \<Rightarrow> string list \<Rightarrow> string" where
  "join sep [] = []"
| "join sep [x] = x"
| "join sep (x # y # ys) = x @ sep @ join sep (y # ys)"

text \<open>
  What Python does with the decoded body in
  \<^verbatim>\<open>[b["name"].lower() for b in response.json()]\<close>: iterating a list gives its items,
  a dict its keys, a string its characters, anything else raises \<^verbatim>\<open>TypeError\<close>;
  \<^verbatim>\<open>b["name"]\<close> is defined on a dict only (\<^verbatim>\<open>KeyError\<close> when the key is missing,
  \<^verbatim>\<open>TypeError\<close> on every other value); \<^verbatim>\<open>.lower()\<close> exists on a string only.
\<close>

fun py_iter :: "json \<Rightarrow> error + json list" where
  "py_iter (JArray xs) = Inr xs"
| "py_iter (JObject kvs) = Inr (map JString (dict_keys kvs))"
| "py_iter (JString s) = Inr (map (\<lambda>c. JString [c]) s)"
| "py_iter _ = Inl TypeError"

fun py_getitem_name :: "json \<Rightarrow> error + json" where
  "py_getitem_name (JObject kvs) =
     (case dict_get kvs ''name'' of None \<Rightarrow> Inl KeyError | Some v \<Rightarrow> Inr v)"
| "py_getitem_name _ = Inl TypeError"

fun py_lower :: "json \<Rightarrow> error + string" where
  "py_lower (JString s) = Inr (lower s)"
| "py_lower _ = Inl AttributeError"

fun breed_names :: "json list \<Rightarrow> error + string list" where
  "breed_names [] = Inr []"
| "breed_names (b # bs) =
     (case py_getitem_name b of
        Inl e \<Rightarrow> Inl e
      | Inr v \<Rightarrow>
          (case py_lower v of
             Inl e \<Rightarrow> Inl e
           | Inr n \<Rightarrow>
               (case breed_names bs of
                  Inl e \<Rightarrow> Inl e
                | Inr ns \<Rightarrow> Inr (n # ns))))"

definition invalid_breed :: "string list \<Rightarrow> error" where
  "invalid_breed breeds =
     HTTPException 400 (''Invalid breed. Valid breeds: '' @ join '', '' (take 5 breeds) @ ''...'')"

definition validate_breed :: "breeds_response \<Rightarrow> string \<Rightarrow> error + unit" where
  "validate_breed response breed =
     (case response of
        RequestFailed e \<Rightarrow> Inl (Uncaught e)
      | NotJSON e \<Rightarrow> Inl (Uncaught e)
      | Body j \<Rightarrow>
          (case py_iter j of
             Inl e \<Rightarrow> Inl e
           | Inr items \<Rightarrow>
               (case breed_names items of
                  Inl e \<Rightarrow> Inl e
                | Inr breeds \<Rightarrow>
                    if lower breed \<notin> set breeds then Inl (invalid_breed breeds)
                    else Inr ())))"

text \<open>
  The shape the catalogue is documented to answer with: a JSON list of objects, each
  with a string under \<^verbatim>\<open>name\<close> once decoded. Any other answer is a transport failure or
  a malformed response.
\<close>

fun breed_entry :: "json \<Rightarrow> bool" where
  "breed_entry (JObject kvs) =
     (case dict_get kvs ''name'' of Some (JString s) \<Rightarrow> True | _ \<Rightarrow> False)"
| "breed_entry _ = False"

fun well_formed :: "breeds_response \<Rightarrow> bool" where
  "well_formed (Body (JArray items)) = list_all breed_entry items"
| "well_formed _ = False"

section \<open>Spy cat endpoints\<close>

text \<open>
  The two reading endpoints (\<^verbatim>\<open>read_cats\<close>, \<^verbatim>\<open>read_cat\<close>) write nothing and are left
  out; the five writing endpoints follow.
\<close>

text \<open>
  \<^verbatim>\<open>SpyCatCreate\<close> is checked by pydantic before the handler body runs:
  \<^verbatim>\<open>years_of_experience: conint(ge=0)\<close>, \<^verbatim>\<open>salary: confloat(gt=0)\<close>.
\<close>

definition SpyCatCreate_valid :: "SpyCatCreate \<Rightarrow> bool" where
  "SpyCatCreate_valid cat \<longleftrightarrow> 0 \<le> cc_years_of_experience cat \<and> 0 < cc_salary cat"

definition create_cat ::
  "breeds_response \<Rightarrow> SpyCatCreate \<Rightarrow> Session \<Rightarrow> (error + SpyCatDB) \<times> Session" where
  "create_cat response cat db =
     (if \<not> SpyCatCreate_valid cat then (Inl RequestValidationError, db)
      else case validate_breed response (cc_breed cat) of
             Inl e \<Rightarrow> (Inl e, db)
           | Inr _ \<Rightarrow>
               (case add_cat cat db of
                  (db_cat, db1) \<Rightarrow>
                    (case db_commit db1 of
                       (Inl e, db2) \<Rightarrow> (Inl e, db2)
                     | (Inr _, db2) \<Rightarrow> (Inr db_cat, db2))))"

text \<open>
  \<^verbatim>\<open>update_cat_salary(cat_id: int, salary: float, ...)\<close>: the salary is a plain
  \<^verbatim>\<open>float\<close> parameter, so the framework checks its type only.
\<close>

definition update_cat_salary :: "int \<Rightarrow> real \<Rightarrow> Session \<Rightarrow> (error + SpyCatDB) \<times> Session" where
  "update_cat_salary cat_id salary db =
     (case query_cat cat_id db of
        None \<Rightarrow> (Inl (HTTPException 404 ''Cat not found''), db)
      | Some db_cat \<Rightarrow>
          (case db_commit (set_cat_salary cat_id salary db) of
             (Inl e, db1) \<Rightarrow> (Inl e, db1)
           | (Inr _, db1) \<Rightarrow> (Inr (db_cat\<lparr>c_salary := salary\<rparr>), db1)))"

text \<open>\<^verbatim>\<open>if db_cat.mission_id:\<close> is Python truth: \<^verbatim>\<open>None\<close> and 0 are false.\<close>

fun truthy :: "int option \<Rightarrow> bool" where
  "truthy None = False"
| "truthy (Some n) = (n \<noteq> 0)"

definition delete_cat :: "int \<Rightarrow> Session \<Rightarrow> (error + string) \<times> Session" where
  "delete_cat cat_id db =
     (case query_cat cat_id db of
        None \<Rightarrow> (Inl (HTTPException 404 ''Cat not found''), db)
      | Some db_cat \<Rightarrow>
          if truthy (c_mission_id db_cat)
          then (Inl (HTTPException 400 ''Cannot delete cat assigned to a mission''), db)
          else
            (case db_commit (delete_cat_row cat_id db) of
               (Inl e, db1) \<Rightarrow> (Inl e, db1)
             | (Inr _, db1) \<Rightarrow> (Inr ''Cat deleted successfully'', db1)))"

section \<open>Mission endpoints\<close>

text \<open>
  \<^verbatim>\<open>create_mission\<close>: the target count, then the cat (\<^verbatim>\<open>if mission.cat_id:\<close>, Python
  truth again), then the mission row and a commit, then the target rows in a loop and a
  second commit. The answer is the mission row with its targets. \<^verbatim>\<open>db.refresh\<close>
  reloads the row the session has just written, which is how the handler learns the
  new id; the model returns the row as it was written. Either commit can raise. When
  the second one does, nothing undoes the first: the exception leaves the handler and
  the database keeps the mission row.
\<close>

definition create_mission ::
  "MissionCreate \<Rightarrow> Session \<Rightarrow> (error + MissionDB \<times> TargetDB list) \<times> Session" where
  "create_mission mission db =
     (if length (mc_targets mission) < 1 \<or> length (mc_targets mission) > 3
      then (Inl (HTTPException 400 ''Mission must have 1-3 targets''), db)
      else if truthy (mc_cat_id mission) \<and>
              (case mc_cat_id mission of None \<Rightarrow> False | Some c \<Rightarrow> query_cat c db = None)
      then (Inl (HTTPException 404 ''Cat not found''), db)
      else
        (case add_mission False (mc_cat_id mission) db of
           (db_mission, db1) \<Rightarrow>
             (case db_commit db1 of
                (Inl e, db2) \<Rightarrow> (Inl e, db2)
              | (Inr _, db2) \<Rightarrow>
                  (let db3 = fold (\<lambda>target d. add_target target (m_id db_mission) d)
                               (mc_targets mission) db2
                   in case db_commit db3 of
                        (Inl e, db4) \<Rightarrow> (Inl e, db4)
                      | (Inr _, db4) \<Rightarrow>
                          (Inr (db_mission, mission_targets (m_id db_mission) (pending db4)),
                           db4)))))"

text \<open>
  \<^verbatim>\<open>update_target\<close>. \<^verbatim>\<open>db_target.mission.is_completed\<close> on a target without a mission row
  is an attribute access on \<^verbatim>\<open>None\<close>. The session's identity map makes
  \<^verbatim>\<open>mission.targets\<close> see the assignment just made to \<^verbatim>\<open>db_target\<close>.
\<close>

definition update_target :: "int \<Rightarrow> TargetUpdate \<Rightarrow> Session \<Rightarrow> (error + string) \<times> Session" where
  "update_target target_id update db =
     (case query_target target_id db of
        None \<Rightarrow> (Inl (HTTPException 404 ''Target not found''), db)
      | Some db_target \<Rightarrow>
          (case target_mission db_target (pending db) of
             None \<Rightarrow> (Inl AttributeError, db)
           | Some mission \<Rightarrow>
               if m_is_completed mission
               then (Inl (HTTPException 400 ''Cannot update target in completed mission''), db)
               else if t_is_completed db_target \<and> u_notes update \<noteq> None
               then (Inl (HTTPException 400 ''Cannot update notes for completed target''), db)
               else
                 (let db1 = (case u_notes update of
                               None \<Rightarrow> db
                             | Some notes \<Rightarrow> set_target_notes target_id notes db);
                      db2 = (case u_is_completed update of
                               None \<Rightarrow> db1
                             | Some b \<Rightarrow>
                                 (let db' = set_target_is_completed target_id b db1;
                                      all_completed =
                                        list_all t_is_completed
                                          (mission_targets (m_id mission) (pending db'))
                                  in if all_completed
                                     then set_mission_is_completed (m_id mission) True db'
                                     else db'))
                  in case db_commit db2 of
                       (Inl e, db3) \<Rightarrow> (Inl e, db3)
                     | (Inr _, db3) \<Rightarrow> (Inr ''Target updated successfully'', db3))))"

section \<open>Reachable stores\<close>

text \<open>
  The stores the service can hold: the empty database, and whatever a request leaves
  behind, requests being served one after the other, whatever the catalogue and the
  database answer to each.
\<close>

inductive reachable :: "store \<Rightarrow> bool" where
  r_init: "reachable empty_store"
| r_create_cat:
    "reachable st \<Longrightarrow> reachable (snd (get_db answers (create_cat response cat) st))"
| r_update_cat_salary:
    "reachable st \<Longrightarrow> reachable (snd (get_db answers (update_cat_salary cat_id salary) st))"
| r_delete_cat: "reachable st \<Longrightarrow> reachable (snd (get_db answers (delete_cat cat_id) st))"
| r_create_mission:
    "reachable st \<Longrightarrow> reachable (snd (get_db answers (create_mission mission) st))"
| r_update_target:
    "reachable st \<Longrightarrow> reachable (snd (get_db answers (update_target target_id update) st))"

text \<open>
  The invariant of reachable stores: primary keys are unique, every target points to a
  mission row, and a mission is completed exactly when it has a target and all of its
  targets are completed. A mission can be left without any target, by a
  \<^verbatim>\<open>create_mission\<close> whose second commit raised; such a mission is never completed.
\<close>

definition refs_ok :: "store \<Rightarrow> bool" where
  "refs_ok st \<longleftrightarrow>
     distinct (map m_id (missions st)) \<and> distinct (map t_id (targets st)) \<and>
     list_all (\<lambda>t. list_ex (\<lambda>m. t_mission_id t = Some (m_id m)) (missions st)) (targets st)"

definition completion_ok :: "store \<Rightarrow> bool" where
  "completion_ok st \<longleftrightarrow>
     list_all (\<lambda>m. m_is_completed m =
                  (mission_targets (m_id m) st \<noteq> [] \<and>
                   list_all t_is_completed (mission_targets (m_id m) st)))
       (missions st)"

definition store_inv :: "store \<Rightarrow> bool" where
  "store_inv st \<longleftrightarrow> refs_ok st \<and> completion_ok st"

text \<open>
  The two assignments of \<^verbatim>\<open>update_target\<close> on one row, for stating what a request
  did to the table.
\<close>

definition upd_row :: "TargetUpdate \<Rightarrow> TargetDB \<Rightarrow> TargetDB" where
  "upd_row u t =
     t\<lparr>t_notes := (case u_notes u of None \<Rightarrow> t_notes t | Some n \<Rightarrow> n),
       t_is_completed := (case u_is_completed u of None \<Rightarrow> t_is_completed t | Some b \<Rightarrow> b)\<rparr>"

section \<open>Example stores\<close>

text \<open>
  A mission with two targets and no cat, as \<^verbatim>\<open>create_mission\<close> leaves it in an empty
  database; the same after the first target was completed; and after both were.
\<close>

definition alpha :: TargetCreate where
  "alpha = \<lparr>tc_name = ''Alpha'', tc_country = ''Freedonia''\<rparr>"

definition bravo :: TargetCreate where
  "bravo = \<lparr>tc_name = ''Bravo'', tc_country = ''Sylvania''\<rparr>"

definition target_row :: "int \<Rightarrow> TargetCreate \<Rightarrow> bool \<Rightarrow> TargetDB" where
  "target_row k tc done =
     \<lparr>t_id = k, t_name = tc_name tc, t_country = tc_country tc, t_notes = [],
      t_is_completed = done, t_mission_id = Some 1\<rparr>"

definition mission_row :: "bool \<Rightarrow> MissionDB" where
  "mission_row done = \<lparr>m_id = 1, m_is_completed = done, m_cat_id = None\<rparr>"

definition store_open :: store where
  "store_open = \<lparr>spy_cats = [], missions = [mission_row False],
                  targets = [target_row 1 alpha False, target_row 2 bravo False]\<rparr>"

definition store_half :: store where
  "store_half = \<lparr>spy_cats = [], missions = [mission_row False],
                  targets = [target_row 1 alpha True, target_row 2 bravo False]\<rparr>"

definition store_done :: store where
  "store_done = \<lparr>spy_cats = [], missions = [mission_row True],
                  targets = [target_row 1 alpha True, target_row 2 bravo True]\<rparr>"

definition complete :: TargetUpdate where
  "complete = \<lparr>u_notes = None, u_is_completed = Some True\<rparr>"

definition reopen :: TargetUpdate where
  "reopen = \<lparr>u_notes = None, u_is_completed = Some False\<rparr>"

definition annotate :: TargetUpdate where
  "annotate = \<lparr>u_notes = Some ''seen at the harbour'', u_is_completed = None\<rparr>"

text \<open>The cat of the specification's scenario, and a database holding it.\<close>

definition tom :: SpyCatDB where
  "tom = \<lparr>c_id = 1, c_name = ''Tom'', c_years_of_experience = 3, c_breed = ''persian'',
           c_salary = 1000, c_mission_id = None\<rparr>"

definition store_tom :: store where
  "store_tom = \<lparr>spy_cats = [tom], missions = [], targets = []\<rparr>"

text \<open>
  An answer of the breed catalogue that is JSON but not a list of breeds, as a rate
  limiter or an error page would send it.
\<close>

definition rate_limited :: breeds_response where
  "rate_limited = Body (JObject [(''message'', JString ''Too many requests'')])"

definition tom_request :: SpyCatCreate where
  "tom_request = \<lparr>cc_name = ''Tom'', cc_years_of_experience = 3, cc_breed = ''persian'',
                   cc_salary = 1000\<rparr>"

text \<open>
  A database that accepts the first commit of a session and refuses the second, as
  SQLite does in \<^verbatim>\<open>create_mission\<close> when a target name holds a lone surrogate, and the
  store this leaves behind in an empty database: a mission without targets. Then the
  same store after a second mission was created beside it, with two targets.
\<close>

definition second_refused :: "nat \<Rightarrow> commit_outcome" where
  "second_refused n = (if n = 1 then Raises ''UnicodeEncodeError'' else Commits)"

definition store_stranded :: store where
  "store_stranded = \<lparr>spy_cats = [], missions = [mission_row False], targets = []\<rparr>"

definition second_mission :: MissionDB where
  "second_mission = \<lparr>m_id = 2, m_is_completed = False, m_cat_id = None\<rparr>"

definition store_beside :: store where
  "store_beside =
     \<lparr>spy_cats = [], missions = [mission_row False, second_mission],
      targets = [(target_row 1 alpha False)\<lparr>t_mission_id := Some 2\<rparr>,
                 (target_row 2 bravo False)\<lparr>t_mission_id := Some 2\<rparr>]\<rparr>"

section \<open>The branches of \<open>update_target\<close>\<close>

lemmas session_defs = SessionLocal_def db_commit_def get_db_def query_cat_def query_target_def

lemmas example_defs = alpha_def bravo_def target_row_def mission_row_def store_open_def
  store_half_def store_done_def complete_def reopen_def annotate_def tom_def store_tom_def
  empty_store_def accepting_def second_refused_def store_stranded_def second_mission_def
  store_beside_def rate_limited_def tom_request_def

lemma update_target_not_found:
  "find (\<lambda>t. t_id t = target_id) (targets st) = None \<Longrightarrow>
   update_target target_id update (SessionLocal answers st) =
     (Inl (HTTPException 404 ''Target not found''), SessionLocal answers st)"
  by (simp add: update_target_def session_defs)

lemma update_target_no_mission:
  "find (\<lambda>t. t_id t = target_id) (targets st) = Some db_target \<Longrightarrow>
   target_mission db_target st = None \<Longrightarrow>
   update_target target_id update (SessionLocal answers st) = (Inl AttributeError, SessionLocal answers st)"
  by (simp add: update_target_def session_defs)

lemma update_target_mission_completed:
  "find (\<lambda>t. t_id t = target_id) (targets st) = Some db_target \<Longrightarrow>
   target_mission db_target st = Some mission \<Longrightarrow> m_is_completed mission \<Longrightarrow>
   update_target target_id update (SessionLocal answers st) =
     (Inl (HTTPException 400 ''Cannot update target in completed mission''), SessionLocal answers st)"
  by (simp add: update_target_def session_defs)

lemma update_target_notes_locked:
  "find (\<lambda>t. t_id t = target_id) (targets st) = Some db_target \<Longrightarrow>
   target_mission db_target st = Some mission \<Longrightarrow> \<not> m_is_completed mission \<Longrightarrow>
   t_is_completed db_target \<Longrightarrow> u_notes update = Some n \<Longrightarrow>
   update_target target_id update (SessionLocal answers st) =
     (Inl (HTTPException 400 ''Cannot update notes for completed target''), SessionLocal answers st)"
  by (simp add: update_target_def session_defs)

lemma update_target_applied:
  assumes "find (\<lambda>t. t_id t = target_id) (targets st) = Some db_target"
    and "target_mission db_target st = Some mission"
    and "\<not> m_is_completed mission"
    and "t_is_completed db_target \<longrightarrow> u_notes update = None"
    and "answers 0 = Commits"
  shows "get_db answers (update_target target_id update) st =
     (Inr ''Target updated successfully'',
      st\<lparr>targets := map (\<lambda>t. if t_id t = target_id then upd_row update t else t) (targets st),
         missions :=
           (if u_is_completed update \<noteq> None \<and>
               list_all t_is_completed (filter (\<lambda>t. t_mission_id t = Some (m_id mission))
                 (map (\<lambda>t. if t_id t = target_id then upd_row update t else t) (targets st)))
            then map (\<lambda>m. if m_id m = m_id mission then m\<lparr>m_is_completed := True\<rparr> else m)
                   (missions st)
            else missions st)\<rparr>)"
proof -
  have idu: "\<And>xs. u_notes update = None \<Longrightarrow> u_is_completed update = None \<Longrightarrow>
      map (\<lambda>t. if t_id t = target_id then upd_row update t else t) xs = xs"
    by (simp add: upd_row_def map_idI)
  show ?thesis
  proof (cases "u_notes update")
    case None
    note n = this
    show ?thesis
    proof (cases "u_is_completed update")
      case None
      with n assms show ?thesis
        by (simp add: update_target_def session_defs idu)
    next
      case (Some b)
      with n have r: "upd_row update = (\<lambda>t. t\<lparr>t_is_completed := b\<rparr>)"
        by (intro ext) (simp add: upd_row_def)
      from Some n assms show ?thesis unfolding r
        by (simp add: update_target_def session_defs Let_def
            set_target_is_completed_def set_mission_is_completed_def mission_targets_def)
    qed
  next
    case (Some nt)
    note n = this
    show ?thesis
    proof (cases "u_is_completed update")
      case None
      with n have r: "upd_row update = (\<lambda>t. t\<lparr>t_notes := nt\<rparr>)"
        by (intro ext) (simp add: upd_row_def)
      from None n assms show ?thesis unfolding r
        by (simp add: update_target_def session_defs Let_def set_target_notes_def)
    next
      case (Some b)
      with n have r: "upd_row update = (\<lambda>t. t\<lparr>t_notes := nt, t_is_completed := b\<rparr>)"
        by (intro ext) (simp add: upd_row_def)
      have m: "\<And>xs. map (\<lambda>t. if t_id t = target_id then t\<lparr>t_is_completed := b\<rparr> else t)
                  (map (\<lambda>t. if t_id t = target_id then t\<lparr>t_notes := nt\<rparr> else t) xs) =
                map (\<lambda>t. if t_id t = target_id then t\<lparr>t_notes := nt, t_is_completed := b\<rparr> else t) xs"
        by simp
      from Some n assms show ?thesis unfolding r
        by (simp add: update_target_def session_defs Let_def set_target_notes_def
            set_target_is_completed_def set_mission_is_completed_def mission_targets_def m
            del: map_map)
    qed
  qed
qed

lemma update_target_refused:
  assumes "find (\<lambda>t. t_id t = target_id) (targets st) = Some db_target"
    and "target_mission db_target st = Some mission"
    and "\<not> m_is_completed mission"
    and "t_is_completed db_target \<longrightarrow> u_notes update = None"
    and "answers 0 = Raises e"
  shows "get_db answers (update_target target_id update) st = (Inl (Uncaught e), st)"
  using assms
  by (cases "u_notes update"; cases "u_is_completed update")
     (simp_all add: update_target_def session_defs Let_def set_target_notes_def
         set_target_is_completed_def set_mission_is_completed_def)

text \<open>A request that is answered with an error commits nothing.\<close>

lemma update_target_failure:
  assumes "get_db answers (update_target target_id update) st = (Inl e, st')"
  shows "st' = st"
proof (cases "find (\<lambda>t. t_id t = target_id) (targets st)")
  case None
  from assms update_target_not_found [OF None, of update answers] show ?thesis
    by (simp add: get_db_def SessionLocal_def)
next
  case (Some db_target)
  note f = this
  show ?thesis
  proof (cases "target_mission db_target st")
    case None
    from assms update_target_no_mission [OF f None, of update answers] show ?thesis
      by (simp add: get_db_def SessionLocal_def)
  next
    case (Some mission)
    note m = this
    show ?thesis
    proof (cases "m_is_completed mission")
      case True
      from assms update_target_mission_completed [OF f m True, of update answers] show ?thesis
        by (simp add: get_db_def SessionLocal_def)
    next
      case False
      note c = this
      show ?thesis
      proof (cases "t_is_completed db_target \<longrightarrow> u_notes update = None")
        case True
        show ?thesis
        proof (cases "answers 0")
          case Commits
          from assms update_target_applied [where answers = answers, OF f m c True Commits] show ?thesis by simp
        next
          case (Raises x)
          from assms update_target_refused [where answers = answers, OF f m c True Raises] show ?thesis by simp
        qed
      next
        case False
        then obtain n where "t_is_completed db_target" "u_notes update = Some n" by auto
        from assms update_target_notes_locked [OF f m c this, of answers]
        show ?thesis by (simp add: get_db_def SessionLocal_def)
      qed
    qed
  qed
qed

text \<open>A request that is answered with success passed both guards and did the assignments.\<close>

lemma update_target_success:
  assumes "get_db answers (update_target target_id update) st = (Inr msg, st')"
  obtains db_target mission where
    "find (\<lambda>t. t_id t = target_id) (targets st) = Some db_target"
    "target_mission db_target st = Some mission"
    "\<not> m_is_completed mission"
    "t_is_completed db_target \<longrightarrow> u_notes update = None"
    "spy_cats st' = spy_cats st"
    "targets st' = map (\<lambda>t. if t_id t = target_id then upd_row update t else t) (targets st)"
    "missions st' =
       (if u_is_completed update \<noteq> None \<and>
           list_all t_is_completed (mission_targets (m_id mission) st')
        then map (\<lambda>m. if m_id m = m_id mission then m\<lparr>m_is_completed := True\<rparr> else m) (missions st)
        else missions st)"
    "answers 0 = Commits"
proof (cases "find (\<lambda>t. t_id t = target_id) (targets st)")
  case None
  from assms update_target_not_found [OF None, of update answers] show ?thesis
    by (simp add: get_db_def SessionLocal_def)
next
  case (Some db_target)
  note f = this
  show ?thesis
  proof (cases "target_mission db_target st")
    case None
    from assms update_target_no_mission [OF f None, of update answers] show ?thesis
      by (simp add: get_db_def SessionLocal_def)
  next
    case (Some mission)
    note m = this
    show ?thesis
    proof (cases "m_is_completed mission")
      case True
      from assms update_target_mission_completed [OF f m True, of update answers] show ?thesis
        by (simp add: get_db_def SessionLocal_def)
    next
      case False
      note c = this
      show ?thesis
      proof (cases "t_is_completed db_target \<longrightarrow> u_notes update = None")
        case True
        have ok: "answers 0 = Commits"
        proof (cases "answers 0")
          case (Raises x)
          from assms update_target_refused [where answers = answers, OF f m c True Raises] show ?thesis by simp
        qed
        from assms update_target_applied [where answers = answers, OF f m c True ok]
        have "st' = st\<lparr>targets := map (\<lambda>t. if t_id t = target_id then upd_row update t else t) (targets st),
           missions :=
             (if u_is_completed update \<noteq> None \<and>
               list_all t_is_completed (filter (\<lambda>t. t_mission_id t = Some (m_id mission))
                 (map (\<lambda>t. if t_id t = target_id then upd_row update t else t) (targets st)))
              then map (\<lambda>m. if m_id m = m_id mission then m\<lparr>m_is_completed := True\<rparr> else m)
                   (missions st)
              else missions st)\<rparr>"
          by simp
        then have "spy_cats st' = spy_cats st"
          and "targets st' = map (\<lambda>t. if t_id t = target_id then upd_row update t else t) (targets st)"
          and "missions st' =
            (if u_is_completed update \<noteq> None \<and>
                list_all t_is_completed (mission_targets (m_id mission) st')
             then map (\<lambda>m. if m_id m = m_id mission then m\<lparr>m_is_completed := True\<rparr> else m) (missions st)
             else missions st)"
          by (simp_all add: mission_targets_def)
        with f m c True show ?thesis using ok by (intro that)
      next
        case False
        then obtain n where "t_is_completed db_target" "u_notes update = Some n" by auto
        from assms update_target_notes_locked [OF f m c this, of answers]
        show ?thesis by (simp add: get_db_def SessionLocal_def)
      qed
    qed
  qed
qed

section \<open>Targets of a completed mission\<close>

text \<open>
  Claim C4. When the mission that owns a target is completed, every update request on
  that target, whatever it carries and whatever the database would answer to a commit,
  is answered with the error 400 ``Cannot update target in completed mission''; the
  session is returned as it was opened, nothing is committed, and the database holds
  what it held before.
\<close>

theorem completed_mission_rejects_update:
  assumes "find (\<lambda>t. t_id t = target_id) (targets st) = Some db_target"
    and "target_mission db_target st = Some mission"
    and "m_is_completed mission"
  shows "update_target target_id update (SessionLocal answers st) =
           (Inl (HTTPException 400 ''Cannot update target in completed mission''),
            SessionLocal answers st) \<and>
         get_db answers (update_target target_id update) st =
           (Inl (HTTPException 400 ''Cannot update target in completed mission''), st)"
  using assms by (simp add: update_target_def session_defs)

theorem completed_mission_rejects_update_witness:
  "find (\<lambda>t. t_id t = 1) (targets store_done) = Some (target_row 1 alpha True) \<and>
   target_mission (target_row 1 alpha True) store_done = Some (mission_row True) \<and>
   m_is_completed (mission_row True) \<and>
   update_target 1 annotate (SessionLocal second_refused store_done) =
     (Inl (HTTPException 400 ''Cannot update target in completed mission''),
      SessionLocal second_refused store_done) \<and>
   get_db second_refused (update_target 1 annotate) store_done =
     (Inl (HTTPException 400 ''Cannot update target in completed mission''), store_done)"
proof -
  have 1: "find (\<lambda>t. t_id t = 1) (targets store_done) = Some (target_row 1 alpha True)"
    by (simp add: example_defs)
  have 2: "target_mission (target_row 1 alpha True) store_done = Some (mission_row True)"
    by (simp add: example_defs target_mission_def)
  have 3: "m_is_completed (mission_row True)"
    by (simp add: example_defs)
  from completed_mission_rejects_update [OF 1 2 3, of annotate second_refused] 1 2 3
  show ?thesis by simp
qed

section \<open>Updates that leave completion alone\<close>

lemma update_target_notes_only:
  assumes "u_is_completed update = None"
    and "get_db answers (update_target target_id update) st = (Inr msg, st')"
  shows "st' = st\<lparr>targets := map (\<lambda>t. if t_id t = target_id
            then t\<lparr>t_notes := (case u_notes update of None \<Rightarrow> t_notes t | Some n \<Rightarrow> n)\<rparr>
            else t) (targets st)\<rparr>"
proof -
  from assms(1) have r: "upd_row update =
      (\<lambda>t. t\<lparr>t_notes := (case u_notes update of None \<Rightarrow> t_notes t | Some n \<Rightarrow> n)\<rparr>)"
    by (intro ext) (simp add: upd_row_def)
  from assms(2) show ?thesis
    by (rule update_target_success) (simp add: assms(1) r)
qed

text \<open>
  Claim C10. A successful update request without \<^verbatim>\<open>is_completed\<close> leaves the mission
  table and the cat table as they were, keeps every row of the target table in place,
  leaves every row with another id untouched, and changes at most the notes of the
  addressed row.
\<close>

theorem notes_only_update_frame:
  assumes "u_is_completed update = None"
    and "get_db answers (update_target target_id update) st = (Inr msg, st')"
  shows "missions st' = missions st \<and> spy_cats st' = spy_cats st \<and>
         length (targets st') = length (targets st) \<and>
         (\<forall>i < length (targets st).
            (t_id (targets st ! i) \<noteq> target_id \<longrightarrow> targets st' ! i = targets st ! i) \<and>
            targets st' ! i = (targets st ! i)\<lparr>t_notes := t_notes (targets st' ! i)\<rparr>)"
  using update_target_notes_only [OF assms] by simp

theorem notes_only_update_frame_witness:
  "u_is_completed annotate = None \<and>
   get_db accepting (update_target 1 annotate) store_open =
     (Inr ''Target updated successfully'',
      store_open\<lparr>targets := [(target_row 1 alpha False)\<lparr>t_notes := ''seen at the harbour''\<rparr>,
                              target_row 2 bravo False]\<rparr>) \<and>
   missions (snd (get_db accepting (update_target 1 annotate) store_open)) = missions store_open \<and>
   targets (snd (get_db accepting (update_target 1 annotate) store_open)) ! 1 = targets store_open ! 1"
proof -
  have 1: "u_is_completed annotate = None"
    by (simp add: annotate_def)
  have 2: "get_db accepting (update_target 1 annotate) store_open =
     (Inr ''Target updated successfully'',
      store_open\<lparr>targets := [(target_row 1 alpha False)\<lparr>t_notes := ''seen at the harbour''\<rparr>,
                              target_row 2 bravo False]\<rparr>)"
    by (simp add: update_target_def session_defs example_defs target_mission_def
        set_target_notes_def Let_def)
  from notes_only_update_frame [OF 1 2] 1 2 show ?thesis
    by (simp add: store_open_def)
qed

section \<open>The branches of \<open>create_mission\<close>\<close>

lemma next_id_fresh: "x \<in> set ids \<Longrightarrow> x < next_id ids"
proof -
  have "x \<in> set ids \<Longrightarrow> x \<le> foldr max ids 0"
    by (induction ids) auto
  then show "x \<in> set ids \<Longrightarrow> x < next_id ids"
    by (simp add: next_id_def)
qed

text \<open>
  The loop over the submitted targets appends one row per target, in order, each under
  a key larger than every key already in the table, and commits nothing by itself.
\<close>

lemma fold_add_target:
  "\<exists>new. pending (fold (\<lambda>target d. add_target target mid d) tcs db) =
            (pending db)\<lparr>targets := targets (pending db) @ new\<rparr> \<and>
         persisted (fold (\<lambda>target d. add_target target mid d) tcs db) = persisted db \<and>
         history (fold (\<lambda>target d. add_target target mid d) tcs db) = history db \<and>
         database (fold (\<lambda>target d. add_target target mid d) tcs db) = database db \<and>
         map t_name new = map tc_name tcs \<and> map t_country new = map tc_country tcs \<and>
         list_all (\<lambda>t. t_mission_id t = Some mid \<and> \<not> t_is_completed t \<and> t_notes t = []) new \<and>
         (\<forall>t \<in> set new. \<forall>x \<in> set (targets (pending db)). t_id x < t_id t) \<and>
         distinct (map t_id new)"
proof (induction tcs arbitrary: db)
  case Nil
  show ?case by (intro exI [of _ "[]"]) simp
next
  case (Cons tc tcs)
  define row where "row = \<lparr>t_id = next_id (map t_id (targets (pending db))), t_name = tc_name tc,
                 t_country = tc_country tc, t_notes = [], t_is_completed = False,
                 t_mission_id = Some mid\<rparr>"
  define db1 where "db1 = add_target tc mid db"
  have p1: "pending db1 = (pending db)\<lparr>targets := targets (pending db) @ [row]\<rparr>"
    and q1: "persisted db1 = persisted db" and h1: "history db1 = history db"
    and e1: "database db1 = database db"
    by (simp_all add: db1_def add_target_def row_def Let_def)
  from Cons.IH [of db1] obtain new where
    a: "pending (fold (\<lambda>target d. add_target target mid d) tcs db1) =
            (pending db1)\<lparr>targets := targets (pending db1) @ new\<rparr>"
    and b: "persisted (fold (\<lambda>target d. add_target target mid d) tcs db1) = persisted db1"
    and c: "history (fold (\<lambda>target d. add_target target mid d) tcs db1) = history db1"
    and c': "database (fold (\<lambda>target d. add_target target mid d) tcs db1) = database db1"
    and d: "map t_name new = map tc_name tcs" "map t_country new = map tc_country tcs"
    and e: "list_all (\<lambda>t. t_mission_id t = Some mid \<and> \<not> t_is_completed t \<and> t_notes t = []) new"
    and f: "\<forall>t \<in> set new. \<forall>x \<in> set (targets (pending db1)). t_id x < t_id t"
    and g: "distinct (map t_id new)"
    by blast
  have rfresh: "\<forall>x \<in> set (targets (pending db)). t_id x < t_id row"
    by (simp add: row_def next_id_fresh)
  have "pending (fold (\<lambda>target d. add_target target mid d) (tc # tcs) db) =
            (pending db)\<lparr>targets := targets (pending db) @ (row # new)\<rparr>"
    using a by (simp add: p1 db1_def [symmetric])
  moreover have "persisted (fold (\<lambda>target d. add_target target mid d) (tc # tcs) db) = persisted db"
    using b by (simp add: q1 db1_def [symmetric])
  moreover have "history (fold (\<lambda>target d. add_target target mid d) (tc # tcs) db) = history db"
    using c by (simp add: h1 db1_def [symmetric])
  moreover have "database (fold (\<lambda>target d. add_target target mid d) (tc # tcs) db) = database db"
    using c' by (simp add: e1 db1_def [symmetric])
  moreover have "map t_name (row # new) = map tc_name (tc # tcs)"
    "map t_country (row # new) = map tc_country (tc # tcs)"
    using d by (simp_all add: row_def)
  moreover have "list_all (\<lambda>t. t_mission_id t = Some mid \<and> \<not> t_is_completed t \<and> t_notes t = []) (row # new)"
    using e by (simp add: row_def)
  moreover have "\<forall>t \<in> set (row # new). \<forall>x \<in> set (targets (pending db)). t_id x < t_id t"
    using f rfresh by (simp add: p1)
  moreover have "distinct (map t_id (row # new))"
    using f g by (auto simp: p1)
  ultimately show ?case by blast
qed

lemma create_mission_bad_count:
  "length (mc_targets mission) < 1 \<or> length (mc_targets mission) > 3 \<Longrightarrow>
   create_mission mission (SessionLocal answers st) =
     (Inl (HTTPException 400 ''Mission must have 1-3 targets''), SessionLocal answers st)"
  by (simp add: create_mission_def)

lemma create_mission_cat_not_found:
  "1 \<le> length (mc_targets mission) \<Longrightarrow> length (mc_targets mission) \<le> 3 \<Longrightarrow>
   mc_cat_id mission = Some c \<Longrightarrow> c \<noteq> 0 \<Longrightarrow>
   find (\<lambda>x. c_id x = c) (spy_cats st) = None \<Longrightarrow>
   create_mission mission (SessionLocal answers st) =
     (Inl (HTTPException 404 ''Cat not found''), SessionLocal answers st)"
  by (cases "mc_targets mission") (simp_all add: create_mission_def session_defs)

lemma create_mission_bad_cat:
  assumes "1 \<le> length (mc_targets mission)" and "length (mc_targets mission) \<le> 3"
    and "\<not> (\<forall>c. mc_cat_id mission = Some c \<longrightarrow> c \<noteq> 0 \<longrightarrow>
           find (\<lambda>x. c_id x = c) (spy_cats st) \<noteq> None)"
  shows "create_mission mission (SessionLocal answers st) =
     (Inl (HTTPException 404 ''Cat not found''), SessionLocal answers st)"
proof -
  from assms(3) obtain c where "mc_cat_id mission = Some c" "c \<noteq> 0"
    "find (\<lambda>x. c_id x = c) (spy_cats st) = None"
    by blast
  with assms(1,2) show ?thesis
    by (rule create_mission_cat_not_found)
qed

text \<open>
  Past the two checks the handler commits twice: the mission row, then the target rows.
  What the request leaves behind depends on what the database answers to each commit.
\<close>

lemma create_mission_past_checks:
  assumes "1 \<le> length (mc_targets mission)" and "length (mc_targets mission) \<le> 3"
    and "\<forall>c. mc_cat_id mission = Some c \<longrightarrow> c \<noteq> 0 \<longrightarrow>
           find (\<lambda>x. c_id x = c) (spy_cats st) \<noteq> None"
  shows "\<exists>db_mission new st1 st2.
     db_mission = \<lparr>m_id = next_id (map m_id (missions st)), m_is_completed = False,
                    m_cat_id = mc_cat_id mission\<rparr> \<and>
     st1 = st\<lparr>missions := missions st @ [db_mission]\<rparr> \<and>
     st2 = st1\<lparr>targets := targets st @ new\<rparr> \<and>
     create_mission mission (SessionLocal answers st) =
       (case answers 0 of
          Raises e \<Rightarrow> (Inl (Uncaught e), SessionLocal answers st)
        | Commits \<Rightarrow>
            (case answers 1 of
               Raises e \<Rightarrow>
                 (Inl (Uncaught e),
                  \<lparr>persisted = st1, pending = st1, history = [st1], database = answers\<rparr>)
             | Commits \<Rightarrow>
                 (Inr (db_mission, mission_targets (m_id db_mission) st2),
                  \<lparr>persisted = st2, pending = st2, history = [st1, st2],
                   database = answers\<rparr>))) \<and>
     map t_name new = map tc_name (mc_targets mission) \<and>
     map t_country new = map tc_country (mc_targets mission) \<and>
     list_all (\<lambda>t. t_mission_id t = Some (m_id db_mission) \<and> \<not> t_is_completed t \<and>
                   t_notes t = []) new \<and>
     (\<forall>t \<in> set new. \<forall>x \<in> set (targets st). t_id x < t_id t) \<and>
     distinct (map t_id new)"
proof -
  define db_mission where "db_mission = \<lparr>m_id = next_id (map m_id (missions st)),
     m_is_completed = False, m_cat_id = mc_cat_id mission\<rparr>"
  define st1 where "st1 = st\<lparr>missions := missions st @ [db_mission]\<rparr>"
  define db1 where "db1 = \<lparr>persisted = st, pending = st1, history = [], database = answers\<rparr>"
  define db2 where "db2 = \<lparr>persisted = st1, pending = st1, history = [st1], database = answers\<rparr>"
  define db3 where
    "db3 = fold (\<lambda>target d. add_target target (m_id db_mission) d) (mc_targets mission) db2"
  from fold_add_target [of "m_id db_mission" "mc_targets mission" db2] obtain new where
    a: "pending db3 = st1\<lparr>targets := targets st1 @ new\<rparr>"
    and b: "persisted db3 = st1" and c: "history db3 = [st1]" and c': "database db3 = answers"
    and d: "map t_name new = map tc_name (mc_targets mission)"
      "map t_country new = map tc_country (mc_targets mission)"
      "list_all (\<lambda>t. t_mission_id t = Some (m_id db_mission) \<and> \<not> t_is_completed t \<and>
                   t_notes t = []) new"
      "\<forall>t \<in> set new. \<forall>x \<in> set (targets st1). t_id x < t_id t"
      "distinct (map t_id new)"
    unfolding db3_def [symmetric] by (auto simp: db2_def)
  define st2 where "st2 = st1\<lparr>targets := targets st @ new\<rparr>"
  have t1: "targets st1 = targets st"
    by (simp add: st1_def)
  have guard: "\<not> (truthy (mc_cat_id mission) \<and>
      (case mc_cat_id mission of None \<Rightarrow> False
       | Some c \<Rightarrow> query_cat c (SessionLocal answers st) = None))"
    using assms(3) by (cases "mc_cat_id mission") (auto simp: session_defs)
  from assms(1,2)
  have len: "\<not> (length (mc_targets mission) < 1 \<or> length (mc_targets mission) > 3)"
    by auto
  have am: "add_mission False (mc_cat_id mission) (SessionLocal answers st) = (db_mission, db1)"
    by (simp add: add_mission_def SessionLocal_def Let_def db_mission_def st1_def db1_def)
  have c1: "db_commit db1 =
      (case answers 0 of
         Commits \<Rightarrow> (Inr (), db2)
       | Raises e \<Rightarrow> (Inl (Uncaught e), SessionLocal answers st))"
    by (simp add: db_commit_def db1_def db2_def SessionLocal_def split: commit_outcome.splits)
  have c3: "db_commit db3 =
      (case answers 1 of
         Commits \<Rightarrow>
           (Inr (), \<lparr>persisted = st2, pending = st2, history = [st1, st2], database = answers\<rparr>)
       | Raises e \<Rightarrow> (Inl (Uncaught e), db2))"
    using a b c c'
    by (cases db3) (simp add: db_commit_def st2_def t1 db2_def split: commit_outcome.splits)
  have p4: "pending \<lparr>persisted = st2, pending = st2, history = [st1, st2], database = answers\<rparr> =
      st2"
    by simp
  have "create_mission mission (SessionLocal answers st) =
       (case answers 0 of
          Raises e \<Rightarrow> (Inl (Uncaught e), SessionLocal answers st)
        | Commits \<Rightarrow>
            (case answers 1 of
               Raises e \<Rightarrow> (Inl (Uncaught e), db2)
             | Commits \<Rightarrow>
                 (Inr (db_mission, mission_targets (m_id db_mission) st2),
                  \<lparr>persisted = st2, pending = st2, history = [st1, st2],
                   database = answers\<rparr>)))"
  proof (cases "answers 0")
    case (Raises e)
    then show ?thesis
      by (simp only: create_mission_def len guard if_False am prod.case c1
          commit_outcome.case sum.case)
  next
    case Commits
    note first = this
    show ?thesis
    proof (cases "answers 1")
      case (Raises e)
      with first show ?thesis
        by (simp only: create_mission_def len guard if_False am prod.case c1 Let_def
            db3_def [symmetric] c3 commit_outcome.case sum.case)
    next
      case Commits
      with first show ?thesis
        by (simp only: create_mission_def len guard if_False am prod.case c1 Let_def
            db3_def [symmetric] c3 commit_outcome.case sum.case p4)
    qed
  qed
  with d show ?thesis
    unfolding t1 db2_def using db_mission_def st1_def st2_def by blast
qed

section \<open>The number of targets of a new mission\<close>


lemmas handler_defs = create_mission_def add_mission_def add_target_def mission_targets_def
  next_id_def Let_def

lemma create_open:
  "create_mission \<lparr>mc_cat_id = None, mc_targets = [alpha, bravo]\<rparr>
     (SessionLocal accepting empty_store) =
     (Inr (mission_row False, [target_row 1 alpha False, target_row 2 bravo False]),
      \<lparr>persisted = store_open, pending = store_open,
       history = [store_stranded, store_open], database = accepting\<rparr>)"
  by (simp add: handler_defs session_defs example_defs)

lemma create_stranded:
  "create_mission \<lparr>mc_cat_id = None, mc_targets = [alpha]\<rparr>
     (SessionLocal second_refused empty_store) =
     (Inl (Uncaught ''UnicodeEncodeError''),
      \<lparr>persisted = store_stranded, pending = store_stranded,
       history = [store_stranded], database = second_refused\<rparr>)"
  by (simp add: handler_defs session_defs example_defs)



section \<open>The two commits of \<open>create_mission\<close>\<close>




section \<open>A cat id that does not resolve\<close>

text \<open>
  A cat id other than 0, among those the database can hold, that matches no cat is
  answered with 404 ``Cat not found'' and nothing is written.
\<close>

lemma create_mission_unknown_cat:
  assumes "1 \<le> length (mc_targets mission)" and "length (mc_targets mission) \<le> 3"
    and "mc_cat_id mission = Some c" and "c \<noteq> 0"
    and "- (2 ^ 63) \<le> c" and "c < 2 ^ 63"
    and "find (\<lambda>x. c_id x = c) (spy_cats st) = None"
  shows "get_db answers (create_mission mission) st =
           (Inl (HTTPException 404 ''Cat not found''), st)"
  using create_mission_cat_not_found [OF assms(1-4) assms(7), of answers]
  by (simp add: get_db_def SessionLocal_def)

text \<open>
  Claim C7 at the cat id 0. The empty database has no cat, so the id does not resolve.
  \<^verbatim>\<open>if mission.cat_id:\<close> takes 0 for ``no cat id'', the lookup is skipped, and the
  mission is persisted with \<^verbatim>\<open>cat_id = 0\<close> and its target.
\<close>

theorem create_mission_cat_zero:
  "find (\<lambda>x. c_id x = 0) (spy_cats empty_store) = None \<and>
   get_db accepting (create_mission \<lparr>mc_cat_id = Some 0, mc_targets = [alpha]\<rparr>) empty_store =
     (Inr (\<lparr>m_id = 1, m_is_completed = False, m_cat_id = Some 0\<rparr>, [target_row 1 alpha False]),
      \<lparr>spy_cats = [],
       missions = [\<lparr>m_id = 1, m_is_completed = False, m_cat_id = Some 0\<rparr>],
       targets = [target_row 1 alpha False]\<rparr>)"
  by (simp add: handler_defs session_defs example_defs)

section \<open>Salaries\<close>

text \<open>
  Claim C6 at the salary -5. \<^verbatim>\<open>create_cat\<close> refuses it, since \<^verbatim>\<open>SpyCatCreate\<close> declares
  \<^verbatim>\<open>salary: confloat(gt=0)\<close>, and the docstring of the column says the salary must be
  positive. \<^verbatim>\<open>update_cat_salary\<close> takes a bare \<^verbatim>\<open>float\<close> and stores it.
\<close>

theorem update_cat_salary_negative:
  "get_db accepting (update_cat_salary 1 (- 5)) store_tom =
     (Inr (tom\<lparr>c_salary := - 5\<rparr>),
      \<lparr>spy_cats = [tom\<lparr>c_salary := - 5\<rparr>], missions = [], targets = []\<rparr>) \<and>
   c_salary (tom\<lparr>c_salary := - 5\<rparr>) \<le> 0 \<and>
   get_db answers (create_cat response
      \<lparr>cc_name = ''Tom'', cc_years_of_experience = 3, cc_breed = ''persian'', cc_salary = - 5\<rparr>)
      empty_store = (Inl RequestValidationError, empty_store)"
  by (simp add: update_cat_salary_def set_cat_salary_def create_cat_def SpyCatCreate_valid_def
      session_defs example_defs)

section \<open>The invariant of reachable stores\<close>

lemma refs_ok_iff:
  "refs_ok st \<longleftrightarrow>
     distinct (map m_id (missions st)) \<and> distinct (map t_id (targets st)) \<and>
     (\<forall>t \<in> set (targets st). \<exists>m \<in> set (missions st). t_mission_id t = Some (m_id m))"
  by (simp add: refs_ok_def list_all_iff list_ex_iff)

lemma completion_ok_iff:
  "completion_ok st \<longleftrightarrow>
     (\<forall>m \<in> set (missions st). m_is_completed m \<longleftrightarrow>
        (\<exists>t \<in> set (targets st). t_mission_id t = Some (m_id m)) \<and>
        (\<forall>t \<in> set (targets st). t_mission_id t = Some (m_id m) \<longrightarrow> t_is_completed t))"
  by (auto simp: completion_ok_def mission_targets_def list_all_iff filter_empty_conv)

lemma store_inv_cong:
  "missions st' = missions st \<Longrightarrow> targets st' = targets st \<Longrightarrow> store_inv st' = store_inv st"
  by (simp add: store_inv_def refs_ok_iff completion_ok_iff)

lemma store_inv_empty: "store_inv empty_store"
  by (simp add: store_inv_def refs_ok_def completion_ok_def empty_store_def)

lemma create_cat_frame:
  "missions (snd (get_db answers (create_cat response cat) st)) = missions st \<and>
   targets (snd (get_db answers (create_cat response cat) st)) = targets st"
  by (simp add: create_cat_def add_cat_def session_defs Let_def
      split: sum.splits commit_outcome.splits)

lemma update_cat_salary_frame:
  "missions (snd (get_db answers (update_cat_salary cat_id salary) st)) = missions st \<and>
   targets (snd (get_db answers (update_cat_salary cat_id salary) st)) = targets st"
  by (simp add: update_cat_salary_def set_cat_salary_def session_defs
      split: option.splits commit_outcome.splits)

lemma delete_cat_frame:
  "missions (snd (get_db answers (delete_cat cat_id) st)) = missions st \<and>
   targets (snd (get_db answers (delete_cat cat_id) st)) = targets st"
  by (simp add: delete_cat_def delete_cat_row_def session_defs
      split: option.splits commit_outcome.splits)

lemma create_mission_inv:
  assumes "store_inv st"
  shows "store_inv (snd (get_db answers (create_mission mission) st))"
proof (cases "length (mc_targets mission) < 1 \<or> length (mc_targets mission) > 3")
  case True
  from create_mission_bad_count [OF True, of answers st] assms show ?thesis
    by (simp add: get_db_def SessionLocal_def)
next
  case False
  then have len: "1 \<le> length (mc_targets mission)" "length (mc_targets mission) \<le> 3"
    by linarith+
  show ?thesis
  proof (cases "\<forall>c. mc_cat_id mission = Some c \<longrightarrow> c \<noteq> 0 \<longrightarrow>
           find (\<lambda>x. c_id x = c) (spy_cats st) \<noteq> None")
    case False
    from create_mission_bad_cat [OF len False, of answers] assms show ?thesis
      by (simp add: get_db_def SessionLocal_def)
  next
    case True
    from create_mission_past_checks [OF len True, of answers] obtain dm new st1 st2 where
      dm: "dm = \<lparr>m_id = next_id (map m_id (missions st)), m_is_completed = False,
                    m_cat_id = mc_cat_id mission\<rparr>"
      and st1: "st1 = st\<lparr>missions := missions st @ [dm]\<rparr>"
      and st2: "st2 = st1\<lparr>targets := targets st @ new\<rparr>"
      and c: "create_mission mission (SessionLocal answers st) =
       (case answers 0 of
          Raises e \<Rightarrow> (Inl (Uncaught e), SessionLocal answers st)
        | Commits \<Rightarrow>
            (case answers 1 of
               Raises e \<Rightarrow>
                 (Inl (Uncaught e),
                  \<lparr>persisted = st1, pending = st1, history = [st1], database = answers\<rparr>)
             | Commits \<Rightarrow>
                 (Inr (dm, mission_targets (m_id dm) st2),
                  \<lparr>persisted = st2, pending = st2, history = [st1, st2],
                   database = answers\<rparr>)))"
      and n: "map t_name new = map tc_name (mc_targets mission)"
      and l: "list_all (\<lambda>t. t_mission_id t = Some (m_id dm) \<and> \<not> t_is_completed t \<and>
                   t_notes t = []) new"
      and fr: "\<forall>t \<in> set new. \<forall>x \<in> set (targets st). t_id x < t_id t"
      and di: "distinct (map t_id new)"
      by blast
    from n have "length new = length (mc_targets mission)"
      by (rule map_eq_imp_length_eq)
    with len have "new \<noteq> []" by auto
    then obtain t0 where t0: "t0 \<in> set new" by (cases new) auto
    from l have own: "\<forall>t \<in> set new. t_mission_id t = Some (m_id dm) \<and> \<not> t_is_completed t"
      by (simp add: list_all_iff)
    have mfresh: "\<forall>m \<in> set (missions st). m_id m \<noteq> m_id dm"
    proof
      fix m assume "m \<in> set (missions st)"
      then have "m_id m \<in> set (map m_id (missions st))" by simp
      from next_id_fresh [OF this] show "m_id m \<noteq> m_id dm" by (simp add: dm)
    qed
    from assms have r: "distinct (map m_id (missions st))" "distinct (map t_id (targets st))"
      "\<forall>t \<in> set (targets st). \<exists>m \<in> set (missions st). t_mission_id t = Some (m_id m)"
      and co: "\<forall>m \<in> set (missions st). m_is_completed m \<longleftrightarrow>
        (\<exists>t \<in> set (targets st). t_mission_id t = Some (m_id m)) \<and>
        (\<forall>t \<in> set (targets st). t_mission_id t = Some (m_id m) \<longrightarrow> t_is_completed t)"
      by (simp_all add: store_inv_def refs_ok_iff completion_ok_iff)
    have unowned: "\<forall>t \<in> set (targets st). t_mission_id t \<noteq> Some (m_id dm)"
      using r(3) mfresh by fastforce
    have nc: "\<not> m_is_completed dm"
      by (simp add: dm)
    have inv1: "store_inv st1"
    proof -
      have 1: "distinct (map m_id (missions st1))"
        using r(1) mfresh by (auto simp: st1)
      have 2: "distinct (map t_id (targets st1))"
        using r(2) by (simp add: st1)
      have 3: "\<forall>t \<in> set (targets st1). \<exists>m \<in> set (missions st1). t_mission_id t = Some (m_id m)"
        using r(3) by (auto simp: st1)
      have 4: "\<forall>m \<in> set (missions st1). m_is_completed m \<longleftrightarrow>
          (\<exists>t \<in> set (targets st1). t_mission_id t = Some (m_id m)) \<and>
          (\<forall>t \<in> set (targets st1). t_mission_id t = Some (m_id m) \<longrightarrow> t_is_completed t)"
      proof
        fix m assume "m \<in> set (missions st1)"
        then consider "m \<in> set (missions st)" | "m = dm" by (auto simp: st1)
        then show "m_is_completed m \<longleftrightarrow>
          (\<exists>t \<in> set (targets st1). t_mission_id t = Some (m_id m)) \<and>
          (\<forall>t \<in> set (targets st1). t_mission_id t = Some (m_id m) \<longrightarrow> t_is_completed t)"
        proof cases
          case 1
          with co show ?thesis by (simp add: st1)
        next
          case 2
          from nc unowned show ?thesis unfolding 2 by (simp add: st1)
        qed
      qed
      show ?thesis
        unfolding store_inv_def refs_ok_iff completion_ok_iff
        by (intro conjI) (rule 1 2 3 4)+
    qed
    have inv2: "store_inv st2"
    proof -
      have ms2: "missions st2 = missions st @ [dm]" and ts2: "targets st2 = targets st @ new"
        by (simp_all add: st2 st1)
      have 1: "distinct (map m_id (missions st2))"
        using r(1) mfresh by (auto simp: ms2)
      have 2: "distinct (map t_id (targets st2))"
        using r(2) di fr by (fastforce simp: ts2)
      have 3: "\<forall>t \<in> set (targets st2). \<exists>m \<in> set (missions st2). t_mission_id t = Some (m_id m)"
        using r(3) own by (auto simp: ms2 ts2)
      have 4: "\<forall>m \<in> set (missions st2). m_is_completed m \<longleftrightarrow>
          (\<exists>t \<in> set (targets st2). t_mission_id t = Some (m_id m)) \<and>
          (\<forall>t \<in> set (targets st2). t_mission_id t = Some (m_id m) \<longrightarrow> t_is_completed t)"
      proof
        fix m assume "m \<in> set (missions st2)"
        then consider "m \<in> set (missions st)" | "m = dm" by (auto simp: ms2)
        then show "m_is_completed m \<longleftrightarrow>
          (\<exists>t \<in> set (targets st2). t_mission_id t = Some (m_id m)) \<and>
          (\<forall>t \<in> set (targets st2). t_mission_id t = Some (m_id m) \<longrightarrow> t_is_completed t)"
        proof cases
          case 1
          with mfresh have "m_id m \<noteq> m_id dm" by blast
          with own have "\<forall>t \<in> set new. t_mission_id t \<noteq> Some (m_id m)" by auto
          with co 1 show ?thesis by (auto simp: ts2)
        next
          case 2
          from t0 own have "t0 \<in> set (targets st2) \<and> t_mission_id t0 = Some (m_id dm) \<and>
              \<not> t_is_completed t0"
            by (simp add: ts2)
          with nc show ?thesis unfolding 2 by blast
        qed
      qed
      show ?thesis
        unfolding store_inv_def refs_ok_iff completion_ok_iff
        by (intro conjI) (rule 1 2 3 4)+
    qed
    have "snd (get_db answers (create_mission mission) st) = st \<or>
          snd (get_db answers (create_mission mission) st) = st1 \<or>
          snd (get_db answers (create_mission mission) st) = st2"
      unfolding get_db_def c by (simp add: SessionLocal_def split: commit_outcome.splits)
    with assms inv1 inv2 show ?thesis by auto
  qed
qed

lemma upd_row_keeps [simp]:
  "t_id (upd_row u t) = t_id t" "t_mission_id (upd_row u t) = t_mission_id t"
  by (simp_all add: upd_row_def)

lemma find_SomeD: "find P xs = Some x \<Longrightarrow> P x \<and> x \<in> set xs"
  by (induction xs) (auto split: if_splits)

lemma target_mission_SomeD:
  "target_mission t st = Some m \<Longrightarrow> t_mission_id t = Some (m_id m) \<and> m \<in> set (missions st)"
  by (cases "t_mission_id t") (auto simp: target_mission_def dest: find_SomeD)

lemma distinct_key_eq:
  "distinct (map f xs) \<Longrightarrow> x \<in> set xs \<Longrightarrow> y \<in> set xs \<Longrightarrow> f x = f y \<Longrightarrow> x = y"
  unfolding distinct_map inj_on_def by blast

lemma map_key_upd:
  "(\<And>x. f (g x) = f x) \<Longrightarrow> map f (map (\<lambda>x. if P x then g x else x) xs) = map f xs"
  by (induction xs) auto

lemma update_target_inv:
  assumes "store_inv st"
  shows "store_inv (snd (get_db answers (update_target target_id update) st))"
proof (cases "get_db answers (update_target target_id update) st")
  case (Pair r st')
  show ?thesis
  proof (cases r)
    case (Inl e)
    with Pair update_target_failure [of answers target_id update st e st'] assms show ?thesis
      by simp
  next
    case (Inr msg)
    with Pair have run: "get_db answers (update_target target_id update) st = (Inr msg, st')"
      by simp
    from assms have r: "distinct (map m_id (missions st))" "distinct (map t_id (targets st))"
      "\<forall>t \<in> set (targets st). \<exists>m \<in> set (missions st). t_mission_id t = Some (m_id m)"
      and co: "\<forall>m \<in> set (missions st). m_is_completed m \<longleftrightarrow>
        (\<exists>t \<in> set (targets st). t_mission_id t = Some (m_id m)) \<and>
        (\<forall>t \<in> set (targets st). t_mission_id t = Some (m_id m) \<longrightarrow> t_is_completed t)"
      by (simp_all add: store_inv_def refs_ok_iff completion_ok_iff)
    define h :: "TargetDB \<Rightarrow> TargetDB"
      where "h = (\<lambda>t. if t_id t = target_id then upd_row update t else t)"
    define g :: "MissionDB \<Rightarrow> MissionDB" where "g = (\<lambda>m. m\<lparr>m_is_completed := True\<rparr>)"
    from run obtain db_target mission where
      f: "find (\<lambda>t. t_id t = target_id) (targets st) = Some db_target"
      and tm: "target_mission db_target st = Some mission"
      and nc: "\<not> m_is_completed mission"
      and ts0: "targets st' =
          map (\<lambda>t. if t_id t = target_id then upd_row update t else t) (targets st)"
      and ms0: "missions st' =
         (if u_is_completed update \<noteq> None \<and>
             list_all t_is_completed (mission_targets (m_id mission) st')
          then map (\<lambda>m. if m_id m = m_id mission then m\<lparr>m_is_completed := True\<rparr> else m)
                 (missions st)
          else missions st)"
      by (rule update_target_success)
    define A where "A \<longleftrightarrow>
      (\<forall>t \<in> set (targets st'). t_mission_id t = Some (m_id mission) \<longrightarrow> t_is_completed t)"
    have A: "list_all t_is_completed (mission_targets (m_id mission) st') = A"
      unfolding A_def mission_targets_def list_all_iff by auto
    have ts: "targets st' = map h (targets st)"
      unfolding h_def by (rule ts0)
    have ms: "missions st' =
         (if u_is_completed update \<noteq> None \<and> A
          then map (\<lambda>m. if m_id m = m_id mission then g m else m) (missions st)
          else missions st)"
      unfolding g_def A [symmetric] by (rule ms0)
    have hk: "\<And>t. t_id (h t) = t_id t" "\<And>t. t_mission_id (h t) = t_mission_id t"
      by (simp_all add: h_def)
    have gk: "\<And>m. m_id (g m) = m_id m"
      by (simp add: g_def)
    from find_SomeD [OF f] have dt: "t_id db_target = target_id" "db_target \<in> set (targets st)"
      by simp_all
    from target_mission_SomeD [OF tm]
    have own: "t_mission_id db_target = Some (m_id mission)" and mi: "mission \<in> set (missions st)"
      by simp_all
    have uniq: "t = db_target" if "t \<in> set (targets st)" "t_id t = target_id" for t
      using distinct_key_eq [OF r(2) that(1) dt(2)] that(2) dt(1) by simp
    have muniq: "m = mission" if "m \<in> set (missions st)" "m_id m = m_id mission" for m
      using distinct_key_eq [OF r(1) that(1) mi] that(2) by simp
    have ids_m: "map m_id (missions st') = map m_id (missions st)"
    proof (cases "u_is_completed update \<noteq> None \<and> A")
      case True
      then have "missions st' = map (\<lambda>m. if m_id m = m_id mission then g m else m) (missions st)"
        by (simp add: ms)
      then show ?thesis by (simp only: map_key_upd [of m_id g, OF gk])
    next
      case False
      then show ?thesis by (simp only: ms if_False)
    qed
    have ids_t: "map t_id (targets st') = map t_id (targets st)"
      unfolding ts by (simp add: hk)
    have 1: "distinct (map m_id (missions st'))"
      using r(1) by (simp only: ids_m)
    have 2: "distinct (map t_id (targets st'))"
      using r(2) by (simp only: ids_t)
    have 3: "\<forall>t \<in> set (targets st'). \<exists>m \<in> set (missions st'). t_mission_id t = Some (m_id m)"
    proof
      fix t assume "t \<in> set (targets st')"
      then obtain t0 where t0: "t0 \<in> set (targets st)" "t = h t0"
        unfolding ts by auto
      from r(3) t0(1) obtain m where m: "m \<in> set (missions st)" "t_mission_id t0 = Some (m_id m)"
        by blast
      from m(1) have "m_id m \<in> set (map m_id (missions st))" by simp
      then have "m_id m \<in> set (map m_id (missions st'))" by (simp only: ids_m)
      then obtain m' where "m' \<in> set (missions st')" "m_id m' = m_id m" by auto
      with m(2) t0(2) hk(2) [of t0]
      show "\<exists>m \<in> set (missions st'). t_mission_id t = Some (m_id m)"
        by (intro bexI [of _ m']) simp_all
    qed
    have owned: "(\<exists>t \<in> set (targets st'). t_mission_id t = Some k) \<longleftrightarrow>
        (\<exists>t \<in> set (targets st). t_mission_id t = Some k)" for k
      unfolding ts by (simp add: hk)
    have others: "(\<forall>t \<in> set (targets st'). t_mission_id t = Some k \<longrightarrow> t_is_completed t) \<longleftrightarrow>
        (\<forall>t \<in> set (targets st). t_mission_id t = Some k \<longrightarrow> t_is_completed t)"
      if "k \<noteq> m_id mission \<or> u_is_completed update = None" for k
    proof -
      have same: "t_is_completed (h t) = t_is_completed t"
        if "t \<in> set (targets st)" "t_mission_id t = Some k" for t
      proof (cases "t_id t = target_id")
        case False
        then show ?thesis by (simp add: h_def)
      next
        case True
        with that(1) have "t = db_target" by (rule uniq)
        with own that(2) \<open>k \<noteq> m_id mission \<or> u_is_completed update = None\<close>
        have "u_is_completed update = None" by simp
        then show ?thesis by (simp add: h_def upd_row_def)
      qed
      have "(\<forall>t \<in> set (targets st'). t_mission_id t = Some k \<longrightarrow> t_is_completed t) \<longleftrightarrow>
        (\<forall>t \<in> set (targets st). t_mission_id t = Some k \<longrightarrow> t_is_completed (h t))"
        unfolding ts by (simp add: hk)
      also have "\<dots> \<longleftrightarrow> (\<forall>t \<in> set (targets st). t_mission_id t = Some k \<longrightarrow> t_is_completed t)"
        using same by blast
      finally show ?thesis .
    qed
    have has_target: "\<exists>t \<in> set (targets st'). t_mission_id t = Some (m_id mission)"
      using owned [of "m_id mission"] dt(2) own by blast
    have 4: "\<forall>m \<in> set (missions st'). m_is_completed m \<longleftrightarrow>
        (\<exists>t \<in> set (targets st'). t_mission_id t = Some (m_id m)) \<and>
        (\<forall>t \<in> set (targets st'). t_mission_id t = Some (m_id m) \<longrightarrow> t_is_completed t)"
    proof
      fix m' assume m': "m' \<in> set (missions st')"
      show "m_is_completed m' \<longleftrightarrow>
          (\<exists>t \<in> set (targets st'). t_mission_id t = Some (m_id m')) \<and>
          (\<forall>t \<in> set (targets st'). t_mission_id t = Some (m_id m') \<longrightarrow> t_is_completed t)"
      proof (cases "u_is_completed update \<noteq> None \<and> A")
        case False
        with m' have in_old: "m' \<in> set (missions st)" by (simp only: ms if_False)
        show ?thesis
        proof (cases "m_id m' = m_id mission")
          case neq: False
          with co in_old others [of "m_id m'"] owned [of "m_id m'"] show ?thesis by simp
        next
          case True
          from in_old True have eq: "m' = mission" by (rule muniq)
          show ?thesis
          proof (cases "u_is_completed update")
            case None
            with co in_old others [of "m_id m'"] owned [of "m_id m'"] show ?thesis by simp
          next
            case (Some b)
            with False have "\<not> A" by simp
            with nc show ?thesis unfolding eq A_def by simp
          qed
        qed
      next
        case True
        with m' have "m' \<in> set (map (\<lambda>m. if m_id m = m_id mission then g m else m) (missions st))"
          by (simp add: ms)
        then obtain m where m: "m \<in> set (missions st)"
          "m' = (if m_id m = m_id mission then g m else m)"
          by auto
        show ?thesis
        proof (cases "m_id m = m_id mission")
          case neq: False
          with m(2) have "m' = m" by simp
          with co m(1) others [of "m_id m"] owned [of "m_id m"] neq show ?thesis by simp
        next
          case eq: True
          with m(2) have "m' = g m" by simp
          then have "m_is_completed m'" "m_id m' = m_id mission"
            using eq by (simp_all add: g_def)
          with True has_target show ?thesis by (simp add: A_def)
        qed
      qed
    qed
    have "store_inv st'"
      unfolding store_inv_def refs_ok_iff completion_ok_iff
      by (intro conjI) (rule 1 2 3 4)+
    with Pair show ?thesis by simp
  qed
qed

lemma reachable_inv: "reachable st \<Longrightarrow> store_inv st"
proof (induction rule: reachable.induct)
  case r_init
  show ?case by (rule store_inv_empty)
next
  case (r_create_cat st answers response cat)
  from create_cat_frame [of answers response cat st]
  have "store_inv (snd (get_db answers (create_cat response cat) st)) = store_inv st"
    by (intro store_inv_cong) simp_all
  with r_create_cat.IH show ?case by simp
next
  case (r_update_cat_salary st answers cat_id salary)
  from update_cat_salary_frame [of answers cat_id salary st]
  have "store_inv (snd (get_db answers (update_cat_salary cat_id salary) st)) = store_inv st"
    by (intro store_inv_cong) simp_all
  with r_update_cat_salary.IH show ?case by simp
next
  case (r_delete_cat st answers cat_id)
  from delete_cat_frame [of answers cat_id st]
  have "store_inv (snd (get_db answers (delete_cat cat_id) st)) = store_inv st"
    by (intro store_inv_cong) simp_all
  with r_delete_cat.IH show ?case by simp
next
  case (r_create_mission st answers mission)
  from r_create_mission.IH show ?case by (rule create_mission_inv)
next
  case (r_update_target st answers target_id update)
  from r_update_target.IH show ?case by (rule update_target_inv)
qed

section \<open>Reachable example stores\<close>

lemma complete_first:
  "get_db accepting (update_target 1 complete) store_open = (Inr ''Target updated successfully'', store_half)"
  by (simp add: update_target_def session_defs example_defs target_mission_def
      set_target_is_completed_def mission_targets_def Let_def)

lemma complete_second:
  "get_db accepting (update_target 2 complete) store_half = (Inr ''Target updated successfully'', store_done)"
  by (simp add: update_target_def session_defs example_defs target_mission_def
      set_target_is_completed_def set_mission_is_completed_def mission_targets_def Let_def)

lemma reachable_open: "reachable store_open"
proof -
  have "snd (get_db accepting (create_mission \<lparr>mc_cat_id = None, mc_targets = [alpha, bravo]\<rparr>)
          empty_store) = store_open"
    by (simp add: get_db_def create_open)
  with r_create_mission
    [OF r_init, of accepting "\<lparr>mc_cat_id = None, mc_targets = [alpha, bravo]\<rparr>"]
  show ?thesis by simp
qed

lemma reachable_half: "reachable store_half"
  using r_update_target [OF reachable_open, of accepting 1 complete]
  by (simp add: complete_first)

lemma reachable_done: "reachable store_done"
  using r_update_target [OF reachable_half, of accepting 2 complete]
  by (simp add: complete_second)

text \<open>
  The store with a mission without targets is reachable: one request, whose second
  commit the database refuses. So is the store with a second mission beside it.
\<close>

lemma reachable_stranded: "reachable store_stranded"
proof -
  have "snd (get_db second_refused (create_mission \<lparr>mc_cat_id = None, mc_targets = [alpha]\<rparr>)
          empty_store) = store_stranded"
    by (simp add: get_db_def create_stranded)
  with r_create_mission
    [OF r_init, of second_refused "\<lparr>mc_cat_id = None, mc_targets = [alpha]\<rparr>"]
  show ?thesis by simp
qed

lemma create_beside:
  "get_db accepting (create_mission \<lparr>mc_cat_id = None, mc_targets = [alpha, bravo]\<rparr>)
     store_stranded =
     (Inr (second_mission, targets store_beside), store_beside)"
  by (simp add: handler_defs session_defs example_defs)

lemma reachable_beside: "reachable store_beside"
  using r_create_mission
    [OF reachable_stranded, of accepting "\<lparr>mc_cat_id = None, mc_targets = [alpha, bravo]\<rparr>"]
  by (simp add: create_beside)

lemma annotate_beside:
  "get_db accepting (update_target 1 annotate) store_beside =
     (Inr ''Target updated successfully'',
      store_beside\<lparr>targets :=
        [(target_row 1 alpha False)\<lparr>t_notes := ''seen at the harbour'', t_mission_id := Some 2\<rparr>,
         (target_row 2 bravo False)\<lparr>t_mission_id := Some 2\<rparr>]\<rparr>)"
  by (simp add: update_target_def session_defs example_defs target_mission_def
      set_target_notes_def Let_def)

section \<open>Mission completion follows target completion\<close>

text \<open>
  Claim C1, as stated, is false. The store that holds mission 1 without targets (left
  by a \<^verbatim>\<open>create_mission\<close> whose second commit the database refused) and mission 2 with
  two targets is reachable. An update of target 1, which belongs to mission 2, succeeds
  there; in the store it commits, mission 1 is not completed although every target it
  owns is completed, since it owns none.
\<close>

theorem stranded_mission_not_completed:
  "reachable store_beside \<and>
   get_db accepting (update_target 1 annotate) store_beside =
     (Inr ''Target updated successfully'',
      store_beside\<lparr>targets :=
        [(target_row 1 alpha False)\<lparr>t_notes := ''seen at the harbour'', t_mission_id := Some 2\<rparr>,
         (target_row 2 bravo False)\<lparr>t_mission_id := Some 2\<rparr>]\<rparr>) \<and>
   missions (store_beside\<lparr>targets :=
        [(target_row 1 alpha False)\<lparr>t_notes := ''seen at the harbour'', t_mission_id := Some 2\<rparr>,
         (target_row 2 bravo False)\<lparr>t_mission_id := Some 2\<rparr>]\<rparr>) ! 0 = mission_row False \<and>
   \<not> (m_is_completed (mission_row False) \<longleftrightarrow>
      list_all t_is_completed (mission_targets (m_id (mission_row False))
        (store_beside\<lparr>targets :=
          [(target_row 1 alpha False)\<lparr>t_notes := ''seen at the harbour'', t_mission_id := Some 2\<rparr>,
           (target_row 2 bravo False)\<lparr>t_mission_id := Some 2\<rparr>]\<rparr>)))"
  using reachable_beside annotate_beside
  by (simp add: example_defs mission_targets_def)

text \<open>
  Claim C1, amended. In every store the service can reach, when an update request on a
  target succeeds, then in the store it commits every mission is completed if and only
  if it owns at least one target and all the targets it owns are completed. A mission
  without targets is never completed.
\<close>

theorem mission_completed_iff_targets_completed:
  assumes "reachable st"
    and "get_db answers (update_target target_id update) st = (Inr msg, st')"
  shows "\<forall>m \<in> set (missions st').
           m_is_completed m \<longleftrightarrow>
             mission_targets (m_id m) st' \<noteq> [] \<and>
             list_all t_is_completed (mission_targets (m_id m) st')"
proof -
  from r_update_target [OF assms(1), of answers target_id update] assms(2) have "reachable st'"
    by simp
  then have "completion_ok st'"
    using reachable_inv by (simp add: store_inv_def)
  then show ?thesis
    by (simp add: completion_ok_def list_all_iff)
qed

theorem mission_completed_iff_targets_completed_witness:
  "reachable store_open \<and>
   get_db accepting (update_target 1 complete) store_open =
     (Inr ''Target updated successfully'', store_half) \<and>
   missions store_half = [mission_row False] \<and>
   m_is_completed (mission_row False) =
     (mission_targets (m_id (mission_row False)) store_half \<noteq> [] \<and>
      list_all t_is_completed (mission_targets (m_id (mission_row False)) store_half)) \<and>
   reachable store_half \<and>
   get_db accepting (update_target 2 complete) store_half =
     (Inr ''Target updated successfully'', store_done) \<and>
   missions store_done = [mission_row True] \<and>
   m_is_completed (mission_row True) =
     (mission_targets (m_id (mission_row True)) store_done \<noteq> [] \<and>
      list_all t_is_completed (mission_targets (m_id (mission_row True)) store_done))"
  using mission_completed_iff_targets_completed [OF reachable_open complete_first]
    mission_completed_iff_targets_completed [OF reachable_half complete_second]
    reachable_open reachable_half complete_first complete_second
  by (simp add: store_half_def store_done_def)

section \<open>Completing a completed target again\<close>

text \<open>
  Claim C9. In every store the service can reach, stores with a mission left without
  targets included, an update request that sets \<^verbatim>\<open>is_completed\<close> to true on a target that
  is already completed leaves the database exactly as it was: either the request is
  answered with success and nothing changed, or it is answered with one of the two 400
  errors of \<^verbatim>\<open>update_target\<close>, or the database refuses the commit and the request is
  answered with that exception; in the last two cases nothing was committed. In
  particular no mission changes its completion flag.
\<close>

theorem recompleting_target_changes_nothing:
  assumes "reachable st"
    and "find (\<lambda>t. t_id t = target_id) (targets st) = Some db_target"
    and "t_is_completed db_target"
    and "u_is_completed update = Some True"
  shows "snd (get_db answers (update_target target_id update) st) = st \<and>
         (fst (get_db answers (update_target target_id update) st) =
            Inr ''Target updated successfully'' \<or>
          fst (get_db answers (update_target target_id update) st) =
            Inl (HTTPException 400 ''Cannot update target in completed mission'') \<or>
          fst (get_db answers (update_target target_id update) st) =
            Inl (HTTPException 400 ''Cannot update notes for completed target'') \<or>
          (\<exists>e. answers 0 = Raises e \<and>
               fst (get_db answers (update_target target_id update) st) = Inl (Uncaught e)))"
proof -
  from reachable_inv [OF assms(1)]
  have r: "distinct (map m_id (missions st))" "distinct (map t_id (targets st))"
    "\<forall>t \<in> set (targets st). \<exists>m \<in> set (missions st). t_mission_id t = Some (m_id m)"
    and co: "\<forall>m \<in> set (missions st). m_is_completed m \<longleftrightarrow>
        (\<exists>t \<in> set (targets st). t_mission_id t = Some (m_id m)) \<and>
        (\<forall>t \<in> set (targets st). t_mission_id t = Some (m_id m) \<longrightarrow> t_is_completed t)"
    by (simp_all add: store_inv_def refs_ok_iff completion_ok_iff)
  from find_SomeD [OF assms(2)]
  have dt: "t_id db_target = target_id" "db_target \<in> set (targets st)"
    by simp_all
  from r(3) dt(2) obtain m0 where m0: "m0 \<in> set (missions st)"
    "t_mission_id db_target = Some (m_id m0)"
    by blast
  from m0(1) have "find (\<lambda>m. m_id m = m_id m0) (missions st) \<noteq> None"
    by (auto simp: find_None_iff)
  with m0(2) obtain mission where tm: "target_mission db_target st = Some mission"
    by (auto simp: target_mission_def)
  from target_mission_SomeD [OF tm]
  have own: "t_mission_id db_target = Some (m_id mission)" and mi: "mission \<in> set (missions st)"
    by simp_all
  show ?thesis
  proof (cases "m_is_completed mission")
    case True
    from update_target_mission_completed [OF assms(2) tm True, of update answers] show ?thesis
      by (simp add: get_db_def SessionLocal_def)
  next
    case False
    note nc = this
    show ?thesis
    proof (cases "u_notes update")
      case (Some n)
      from update_target_notes_locked [OF assms(2) tm nc assms(3) Some, of answers] show ?thesis
        by (simp add: get_db_def SessionLocal_def)
    next
      case None
      have same: "upd_row update db_target = db_target"
        using None assms(3,4) by (simp add: upd_row_def)
      have rows: "map (\<lambda>t. if t_id t = target_id then upd_row update t else t) (targets st) =
          targets st"
      proof (rule map_idI)
        fix t assume t: "t \<in> set (targets st)"
        show "(if t_id t = target_id then upd_row update t else t) = t"
        proof (cases "t_id t = target_id")
          case True
          with distinct_key_eq [OF r(2) t dt(2)] dt(1) have "t = db_target" by simp
          with same True show ?thesis by simp
        next
          case False
          then show ?thesis by simp
        qed
      qed
      from co mi nc dt(2) own
      have open_target: "\<not> list_all t_is_completed
          (filter (\<lambda>t. t_mission_id t = Some (m_id mission)) (targets st))"
        by (auto simp: list_all_iff)
      from None have g: "t_is_completed db_target \<longrightarrow> u_notes update = None"
        by simp
      show ?thesis
      proof (cases "answers 0")
        case Commits
        from update_target_applied [where answers = answers, OF assms(2) tm nc g Commits]
        have "get_db answers (update_target target_id update) st =
            (Inr ''Target updated successfully'', st)"
          by (simp add: rows open_target)
        then show ?thesis by simp
      next
        case (Raises e)
        from update_target_refused [where answers = answers, OF assms(2) tm nc g Raises]
        show ?thesis using Raises by simp
      qed
    qed
  qed
qed

theorem recompleting_target_changes_nothing_witness:
  "reachable store_half \<and>
   find (\<lambda>t. t_id t = 1) (targets store_half) = Some (target_row 1 alpha True) \<and>
   t_is_completed (target_row 1 alpha True) \<and>
   u_is_completed complete = Some True \<and>
   snd (get_db accepting (update_target 1 complete) store_half) = store_half \<and>
   fst (get_db accepting (update_target 1 complete) store_half) = Inr ''Target updated successfully''"
proof -
  have 1: "find (\<lambda>t. t_id t = 1) (targets store_half) = Some (target_row 1 alpha True)"
    by (simp add: example_defs)
  have 2: "t_is_completed (target_row 1 alpha True)"
    by (simp add: target_row_def)
  have 3: "u_is_completed complete = Some True"
    by (simp add: complete_def)
  have 4: "fst (get_db accepting (update_target 1 complete) store_half) = Inr ''Target updated successfully''"
    by (simp add: update_target_def session_defs example_defs target_mission_def
        set_target_is_completed_def mission_targets_def Let_def)
  from recompleting_target_changes_nothing [OF reachable_half 1 2 3, of accepting]
    reachable_half 1 2 3 4
  show ?thesis by simp
qed

section \<open>Reopening a completed target\<close>

text \<open>
  Claim C2, as stated, is false. In the store reached by creating a mission with two
  targets and completing the first, target 1 is completed; the request
  \<^verbatim>\<open>{"is_completed": false}\<close> on it succeeds and the target is pending again: the handler
  assigns whatever boolean the request carries.
\<close>

theorem completed_target_reopened:
  "reachable store_half \<and>
   t_is_completed (targets store_half ! 0) \<and>
   get_db accepting (update_target 1 reopen) store_half = (Inr ''Target updated successfully'', store_open) \<and>
   \<not> t_is_completed (targets store_open ! 0)"
  using reachable_half
  by (simp add: update_target_def session_defs example_defs target_mission_def
      set_target_is_completed_def mission_targets_def Let_def)

text \<open>
  Claim C2, amended. Primary keys being unique, and whatever the database answers to
  the commit, a row of the target table that is completed before an update request and
  not completed after it is the row the request addresses; the request carries
  \<^verbatim>\<open>is_completed = false\<close> and no notes, it was answered with success, and the mission
  that owns the row is not completed. No other request takes a target from completed
  back to pending.
\<close>

theorem completion_reversed_only_by_reopen:
  assumes "distinct (map t_id (targets st))"
    and "get_db answers (update_target target_id update) st = (r, st')"
    and "i < length (targets st)"
    and "t_is_completed (targets st ! i)"
    and "\<not> t_is_completed (targets st' ! i)"
  shows "t_id (targets st ! i) = target_id \<and>
         u_is_completed update = Some False \<and> u_notes update = None \<and>
         r = Inr ''Target updated successfully'' \<and>
         (\<exists>mission. target_mission (targets st ! i) st = Some mission \<and>
                     \<not> m_is_completed mission)"
proof (cases r)
  case (Inl e)
  with assms(2) have "st' = st" by (simp add: update_target_failure)
  with assms(4,5) show ?thesis by simp
next
  case (Inr msg)
  with assms(2) have "get_db answers (update_target target_id update) st = (Inr msg, st')"
    by simp
  then obtain db_target mission where
    f: "find (\<lambda>t. t_id t = target_id) (targets st) = Some db_target"
    and tm: "target_mission db_target st = Some mission"
    and nc: "\<not> m_is_completed mission"
    and g: "t_is_completed db_target \<longrightarrow> u_notes update = None"
    and ts: "targets st' =
        map (\<lambda>t. if t_id t = target_id then upd_row update t else t) (targets st)"
    and ok: "answers 0 = Commits"
    by (rule update_target_success)
  from ts assms(3) have row: "targets st' ! i =
      (if t_id (targets st ! i) = target_id then upd_row update (targets st ! i)
       else targets st ! i)"
    by simp
  from row assms(4,5) have addressed: "t_id (targets st ! i) = target_id"
    by (cases "t_id (targets st ! i) = target_id") simp_all
  with row assms(5) have "\<not> t_is_completed (upd_row update (targets st ! i))"
    by simp
  with assms(4) have reopen: "u_is_completed update = Some False"
    by (cases "u_is_completed update") (simp_all add: upd_row_def)
  from find_SomeD [OF f] have dt: "t_id db_target = target_id" "db_target \<in> set (targets st)"
    by simp_all
  from assms(3) have "targets st ! i \<in> set (targets st)" by simp
  from distinct_key_eq [OF assms(1) this dt(2)] addressed dt(1)
  have same: "targets st ! i = db_target" by simp
  with g assms(4) have no_notes: "u_notes update = None" by simp
  from update_target_applied [where answers = answers, OF f tm nc g ok] assms(2)
  have "r = Inr ''Target updated successfully''" by simp
  with addressed reopen no_notes tm nc same show ?thesis by simp
qed

theorem completion_reversed_only_by_reopen_witness:
  "distinct (map t_id (targets store_half)) \<and>
   get_db accepting (update_target 1 reopen) store_half = (Inr ''Target updated successfully'', store_open) \<and>
   (0::nat) < length (targets store_half) \<and>
   t_is_completed (targets store_half ! 0) \<and>
   \<not> t_is_completed (targets store_open ! 0) \<and>
   t_id (targets store_half ! 0) = 1 \<and>
   u_is_completed reopen = Some False \<and> u_notes reopen = None \<and>
   target_mission (targets store_half ! 0) store_half = Some (mission_row False) \<and>
   \<not> m_is_completed (mission_row False)"
proof -
  have 1: "distinct (map t_id (targets store_half))"
    by (simp add: example_defs)
  have 2: "get_db accepting (update_target 1 reopen) store_half =
      (Inr ''Target updated successfully'', store_open)"
    by (simp add: update_target_def session_defs example_defs target_mission_def
        set_target_is_completed_def mission_targets_def Let_def)
  have 3: "(0::nat) < length (targets store_half)"
    by (simp add: example_defs)
  have 4: "t_is_completed (targets store_half ! 0)"
    by (simp add: example_defs)
  have 5: "\<not> t_is_completed (targets store_open ! 0)"
    by (simp add: example_defs)
  have 6: "target_mission (targets store_half ! 0) store_half = Some (mission_row False)"
    by (simp add: example_defs target_mission_def)
  from completion_reversed_only_by_reopen [OF 1 2 3 4 5] 1 2 3 4 5 6 show ?thesis
    by simp
qed

section \<open>The breed catalogue fails or answers something else\<close>

lemma breed_names_malformed:
  "\<not> list_all breed_entry items \<Longrightarrow>
   \<exists>e. breed_names items = Inl e \<and> e \<in> {TypeError, KeyError, AttributeError}"
proof (induction items)
  case Nil
  then show ?case by simp
next
  case (Cons b bs)
  show ?case
  proof (cases "breed_entry b")
    case True
    then obtain kvs s where b: "b = JObject kvs" "dict_get kvs ''name'' = Some (JString s)"
      by (cases b) (auto split: option.splits json.splits)
    from True Cons.prems have "\<not> list_all breed_entry bs" by simp
    from Cons.IH [OF this] obtain e where "breed_names bs = Inl e"
      "e \<in> {TypeError, KeyError, AttributeError}"
      by blast
    with b show ?thesis by simp
  next
    case False
    show ?thesis
    proof (cases b)
      case (JObject kvs)
      show ?thesis
      proof (cases "dict_get kvs ''name''")
        case None
        with JObject show ?thesis by simp
      next
        case (Some v)
        with False JObject have "\<forall>s. v \<noteq> JString s" by auto
        then have "py_lower v = Inl AttributeError" by (cases v) simp_all
        with JObject Some show ?thesis by simp
      qed
    qed simp_all
  qed
qed

lemma py_iter_not_array:
  assumes "\<forall>items. j \<noteq> JArray items"
  shows "py_iter j = Inl TypeError \<or> py_iter j = Inr [] \<or>
         (\<exists>s items. py_iter j = Inr (JString s # items))"
proof (cases j)
  case (JArray items)
  with assms show ?thesis by simp
next
  case (JString s)
  then show ?thesis by (cases s) simp_all
next
  case (JObject kvs)
  then show ?thesis by (cases "dict_keys kvs") simp_all
qed simp_all

lemma validate_breed_malformed:
  assumes "\<not> well_formed response"
  shows "\<exists>e. validate_breed response breed = Inl e \<and>
           ((\<exists>name. e = Uncaught name) \<or> e = invalid_breed [])"
proof (cases response)
  case (RequestFailed x)
  then show ?thesis by (simp add: validate_breed_def)
next
  case (NotJSON x)
  then show ?thesis by (simp add: validate_breed_def)
next
  case (Body j)
  show ?thesis
  proof (cases "\<exists>items. j = JArray items")
    case True
    then obtain items where j: "j = JArray items" by blast
    with assms Body have "\<not> list_all breed_entry items" by simp
    from breed_names_malformed [OF this] obtain e where "breed_names items = Inl e"
      "e \<in> {TypeError, KeyError, AttributeError}"
      by blast
    with Body j show ?thesis by (auto simp: validate_breed_def)
  next
    case False
    then have "\<forall>items. j \<noteq> JArray items" by blast
    from py_iter_not_array [OF this] Body show ?thesis
      by (auto simp: validate_breed_def)
  qed
qed

text \<open>A catalogue that answers as documented accepts its breeds in any letter case.\<close>

lemma validate_breed_accepts:
  "validate_breed (Body (JArray [JObject [(''id'', JString ''pers''), (''name'', JString ''Persian'')]]))
     ''PERSIAN'' = Inr ()"
  by code_simp

lemma validate_breed_rejects:
  "validate_breed (Body (JArray [JObject [(''id'', JString ''pers''), (''name'', JString ''Persian'')]]))
     ''tabby'' = Inl (invalid_breed [''persian''])"
  by code_simp

text \<open>
  Of a repeated member the last one counts: the body
  \<^verbatim>\<open>[{"name": 5, "name": "Persian"}]\<close> is a list of one breed, and \<^verbatim>\<open>persian\<close> passes.
\<close>

lemma validate_breed_repeated_name:
  "well_formed (Body (JArray [JObject [(''name'', JNumber 5), (''name'', JString ''Persian'')]])) \<and>
   validate_breed (Body (JArray [JObject [(''name'', JNumber 5), (''name'', JString ''Persian'')]]))
     ''persian'' = Inr ()"
  by code_simp

text \<open>
  Claim C5, as stated, is false. When the request to the catalogue fails in transport,
  \<^verbatim>\<open>validate_breed\<close> ends with the exception of \<^verbatim>\<open>requests.get\<close>, which nothing catches:
  it is not an \<open>HTTPException\<close>, the one error the service answers its caller with a
  code and a detail, and the source has no error for an unavailable catalogue.
\<close>

theorem validate_breed_transport_failure:
  "validate_breed (RequestFailed ''ConnectionError'') ''persian'' =
     Inl (Uncaught ''ConnectionError'') \<and>
   \<not> is_HTTPException (Uncaught ''ConnectionError'') \<and>
   get_db accepting (create_cat (RequestFailed ''ConnectionError'') tom_request) empty_store =
     (Inl (Uncaught ''ConnectionError''), empty_store)"
  by (simp add: validate_breed_def create_cat_def SpyCatCreate_valid_def tom_request_def
      session_defs)

text \<open>
  Claim C5, amended. A transport failure or a malformed answer of the catalogue (any
  answer that, once decoded, is not a list of objects with a string under \<^verbatim>\<open>name\<close>)
  never passes validation and no cat is stored. What the caller gets is not a dedicated
  error: it is an uncaught exception (whatever \<^verbatim>\<open>requests.get\<close> or \<^verbatim>\<open>response.json()\<close>
  raised, or the \<open>TypeError\<close>, \<open>KeyError\<close> or \<open>AttributeError\<close> of reading the decoded
  body), or, for a body that iterates to nothing, the ``Invalid breed'' error with an
  empty list of breeds.
\<close>

theorem malformed_catalogue_never_passes:
  assumes "\<not> well_formed response"
  shows "(\<exists>e. validate_breed response breed = Inl e \<and>
            ((\<exists>name. e = Uncaught name) \<or> e = invalid_breed [])) \<and>
         (\<exists>e. get_db answers (create_cat response cat) st = (Inl e, st))"
proof -
  from validate_breed_malformed [OF assms, of "cc_breed cat"]
  obtain e where "validate_breed response (cc_breed cat) = Inl e" by blast
  then have "\<exists>e. get_db answers (create_cat response cat) st = (Inl e, st)"
    by (simp add: create_cat_def session_defs)
  with validate_breed_malformed [OF assms, of breed] show ?thesis by blast
qed

theorem malformed_catalogue_never_passes_witness:
  "\<not> well_formed rate_limited \<and>
   validate_breed rate_limited ''persian'' = Inl TypeError \<and>
   get_db accepting (create_cat rate_limited tom_request) empty_store =
     (Inl TypeError, empty_store) \<and>
   \<not> well_formed (NotJSON ''JSONDecodeError'') \<and>
   validate_breed (NotJSON ''JSONDecodeError'') ''persian'' = Inl (Uncaught ''JSONDecodeError'')"
proof -
  have 1: "\<not> well_formed rate_limited"
    by (simp add: rate_limited_def)
  have 2: "validate_breed rate_limited ''persian'' = Inl TypeError"
    by (simp add: rate_limited_def validate_breed_def dict_keys_def)
  have 3: "get_db accepting (create_cat rate_limited tom_request) empty_store =
      (Inl TypeError, empty_store)"
    by (simp add: rate_limited_def validate_breed_def dict_keys_def create_cat_def
        SpyCatCreate_valid_def tom_request_def session_defs)
  have 4: "\<not> well_formed (NotJSON ''JSONDecodeError'')"
    by simp
  have 5: "validate_breed (NotJSON ''JSONDecodeError'') ''persian'' =
      Inl (Uncaught ''JSONDecodeError'')"
    by (simp add: validate_breed_def)
  from malformed_catalogue_never_passes [OF 1, of "''persian''" accepting tom_request empty_store]
    malformed_catalogue_never_passes
      [OF 4, of "''persian''" accepting tom_request empty_store]
    1 2 3 4 5
  show ?thesis by simp
qed

end
